theory Spec2Isabelle
  imports Complex_Main
begin

section \<open>Data model\<close>

text \<open>
  The dictionaries the Python code passes around have a fixed set of keys, so each becomes a
  record. Python floats are modelled as reals, Python ints as \<open>int\<close>. A key that a
  dictionary may lack (\<open>end_time\<close>, \<open>session_id\<close> of an event before the pipeline adds
  it) is an \<open>option\<close> field.
\<close>

datatype error =
    FileNotFoundError string
  | RuntimeError string
  | ModelError string
  | KeyError int
  | ZeroDivisionError
  | SinkError string

text \<open>\<open>bbox\<close> and one detection, as \<open>InferenceEngine._parse_results\<close> builds them.\<close>

record bbox =
  x1 :: int
  y1 :: int
  x2 :: int
  y2 :: int

record detection =
  class_id :: int
  class_name :: string
  confidence :: real
  bbox :: bbox

text \<open>A decoded frame: its numpy shape (height, width, channels) and its pixel bytes.\<close>

record frame =
  frame_shape :: "int \<times> int \<times> int"
  frame_pixels :: "nat list"

text \<open>
  The event dictionary of \<open>DetectionFormatter.format_detection_event\<close>; \<open>image_size\<close> is
  (width, height). The formatter leaves \<open>session_id\<close> out; the pipelines add it.
\<close>

record event =
  frame_id :: int
  timestamp :: string
  image_size :: "int \<times> int"
  detection_count :: int
  detections :: "detection list"
  ev_session_id :: "string option"

definition format_detection_event ::
  "int \<Rightarrow> string \<Rightarrow> detection list \<Rightarrow> int \<times> int \<times> int \<Rightarrow> event" where
  "format_detection_event frame_number ts dets shape =
     \<lparr> frame_id = frame_number,
       timestamp = ts,
       image_size = (fst (snd shape), fst shape),
       detection_count = int (length dets),
       detections = dets,
       ev_session_id = None \<rparr>"

text \<open>
  The session dictionary. The local pipeline writes \<open>video_path\<close> and, at the end,
  \<open>end_time\<close>; the remote uploader writes \<open>last_update\<close> and \<open>end_time\<close>.
\<close>

record session =
  sess_session_id :: string
  sess_start_time :: string
  status :: string
  video_path :: "string option"
  frame_count :: int
  total_detections :: int
  end_time :: "string option"
  last_update :: "string option"

subsection \<open>The two stores\<close>

text \<open>
  The local store is the pair of files \<open>output/current_detections.json\<close> and
  \<open>output/current_session.json\<close>, and the archive files written at the end of a run.
  \<open>json.dump\<close> followed by \<open>json.load\<close> is the identity on these dictionaries, so a
  whole file is given by the value it holds.
\<close>

record detections_doc =
  doc_session_id :: "string option"
  doc_detections :: "event list"

text \<open>
  Every file of the store is written by \<open>with open(path, 'w') as f: json.dump(v, f)\<close>:
  the open creates or truncates the file, the text of \<open>v\<close> reaches it through the
  writer's buffer, and the close writes the rest. So a file is absent, or whole (it holds
  the complete JSON text of a value), or torn: opened for writing \<open>v\<close> and not yet closed,
  it holds a proper prefix of the text of \<open>v\<close>, the empty text right after the open and a
  longer one after each flush of the buffer. A proper prefix of the JSON text of a
  dictionary is not a JSON text.
\<close>

datatype 'a json_file = Absent | Torn 'a | Whole 'a

text \<open>The states of a file while one such write of \<open>v\<close> runs, the last one last.\<close>

definition dump_json :: "'a \<Rightarrow> 'a json_file list" where
  "dump_json v = [Torn v, Whole v]"

record local_store =
  detections_file :: "detections_doc json_file"
  session_file :: "session json_file"
  archive_files :: "(session \<times> event list) json_file list"

text \<open>
  The remote store is the realtime database: the pushed children of \<open>/detections\<close> and
  \<open>/frames\<close> in push order, and the children of \<open>/sessions\<close> by session id.
\<close>

record remote_db =
  db_detections :: "event list"
  db_frames :: "event list"
  db_sessions :: "string \<rightharpoonup> session"

record store =
  local_files :: local_store
  remote :: remote_db

section \<open>Session identifiers\<close>

text \<open>
  \<open>str(n)\<close> for a Python int: decimal digits, a leading minus sign for a negative number.
  The three identifiers are f-strings over \<open>int(time.time())\<close>.
\<close>

definition digit_char :: "nat \<Rightarrow> char" where
  "digit_char d = ''0123456789'' ! (d mod 10)"

function str_nat :: "nat \<Rightarrow> string" where
  "str_nat n = (if n < 10 then [digit_char n] else str_nat (n div 10) @ [digit_char (n mod 10)])"
  by pat_completeness auto
termination
  by (relation "measure id") auto

definition str_int :: "int \<Rightarrow> string" where
  "str_int i = (if i < 0 then CHR ''-'' # str_nat (nat (- i)) else str_nat (nat i))"

definition api_session_id :: "int \<Rightarrow> string" where
  "api_session_id t = ''session_'' @ str_int t"

definition local_session_id :: "int \<Rightarrow> string" where
  "local_session_id t = ''local_'' @ str_int t"

definition firebase_session_id :: "int \<Rightarrow> string" where
  "firebase_session_id t = ''inference_'' @ str_int t"

section \<open>The API server: job control\<close>

text \<open>
  \<open>current_analysis\<close>, the global dictionary of \<open>api_server.py\<close>. \<open>process\<close> is the
  handle of the subprocess the background thread spawned last (a process id here).
\<close>

record analysis =
  running :: bool
  session_id :: "string option"
  video_name :: "string option"
  start_time :: "string option"
  process :: "nat option"

definition initial_analysis :: analysis where
  "initial_analysis =
     \<lparr> running = False, session_id = None, video_name = None, start_time = None,
       process = None \<rparr>"

text \<open>
  What a request handler reads from outside: whether the remote mode is configured, which
  paths exist, the clock (\<open>int(time.time())\<close> and \<open>datetime.now().isoformat()\<close>), and
  whether the remote service answers the call made by \<open>clear_data\<close>.
\<close>

record api_env =
  firebase_enabled :: bool
  path_exists :: "string \<Rightarrow> bool"
  now :: int
  now_iso :: string
  remote_up :: bool

text \<open>
  \<open>clear_data\<close>: the remote branch sets \<open>/detections\<close> and \<open>/frames\<close> to \<open>None\<close> and
  swallows a failure (taken here at the first of the two calls); the local branch unlinks
  the two current files.
\<close>

definition clear_data :: "api_env \<Rightarrow> store \<Rightarrow> store" where
  "clear_data env s =
     (if firebase_enabled env then
        (if remote_up env
         then s\<lparr>remote := (remote s)\<lparr>db_detections := [], db_frames := []\<rparr>\<rparr>
         else s)
      else s\<lparr>local_files := (local_files s)\<lparr>detections_file := Absent, session_file := Absent\<rparr>\<rparr>)"

text \<open>
  \<open>Path(p).name\<close>, for a path written with forward slashes: the path is cut at the
  slashes, empty components (doubled or trailing slashes) and \<open>.\<close> components are
  dropped, and the name is the last component left, or the empty string when none is.
\<close>

fun split_path :: "string \<Rightarrow> string list" where
  "split_path [] = [[]]"
| "split_path (c # cs) =
     (if c = CHR ''/'' then [] # split_path cs
      else (case split_path cs of
              [] \<Rightarrow> [[c]]
            | x # xs \<Rightarrow> (c # x) # xs))"

definition path_parts :: "string \<Rightarrow> string list" where
  "path_parts p = filter (\<lambda>x. x \<noteq> [] \<and> x \<noteq> ''.'') (split_path p)"

definition path_name :: "string \<Rightarrow> string" where
  "path_name p = (case rev (path_parts p) of [] \<Rightarrow> [] | x # xs \<Rightarrow> x)"

text \<open>
  The body of a start request: \<open>request.json\<close> either raises or is not an object (the
  handler's \<open>except\<close> branch, with the exception's message), or is an object whose
  \<open>video_path\<close> key is absent or a string.
\<close>

datatype request_body = Unreadable string | Object "string option"

datatype start_response =
    Started string string
  | Failed nat string

text \<open>
  \<open>start_analysis\<close> returns the response, the new global state, the new store and, when
  it started the background thread, the video path given to it.
\<close>

definition start_analysis ::
  "api_env \<Rightarrow> request_body \<Rightarrow> analysis \<Rightarrow> store
     \<Rightarrow> start_response \<times> analysis \<times> store \<times> string option" where
  "start_analysis env body st s =
     (if running st then (Failed 400 ''Analysis already in progress'', st, s, None)
      else case body of
        Unreadable msg \<Rightarrow> (Failed 500 msg, st\<lparr>running := False\<rparr>, s, None)
      | Object None \<Rightarrow> (Failed 400 ''No video path provided'', st, s, None)
      | Object (Some p) \<Rightarrow>
          if p = [] then (Failed 400 ''No video path provided'', st, s, None)
          else if \<not> path_exists env p then (Failed 404 ''Video file not found'', st, s, None)
          else
            let sid = api_session_id (now env);
                s' = clear_data env s;
                st' = st\<lparr>running := True, session_id := Some sid,
                         video_name := Some (path_name p), start_time := Some (now_iso env)\<rparr>
            in (Started sid (path_name p), st', s', Some p))"


definition background_finished :: "analysis \<Rightarrow> analysis" where
  "background_finished st = st\<lparr>running := False\<rparr>"

record status_response =
  st_running :: bool
  st_session_id :: "string option"
  st_video_name :: "string option"
  st_start_time :: "string option"

definition get_status :: "analysis \<Rightarrow> status_response" where
  "get_status st =
     \<lparr> st_running = running st, st_session_id = session_id st,
       st_video_name = video_name st, st_start_time = start_time st \<rparr>"

text \<open>
  \<open>stop_analysis\<close> returns the JSON body (\<open>success\<close> and \<open>message\<close>), the new global
  state and the process it sent \<open>terminate()\<close> to, if any. A \<open>Popen\<close> object is truthy, so
  the test \<open>current_analysis["process"] and current_analysis["running"]\<close> is
  "a handle is stored and the flag is set". \<open>raised\<close> is the message of the exception
  \<open>terminate()\<close> raises, if it does: the handler then answers 500 and the flag, whose
  assignment comes after the call, stays set.
\<close>

datatype stop_response = Stop bool string | StopFailed nat string

definition stop_analysis ::
  "string option \<Rightarrow> analysis \<Rightarrow> stop_response \<times> analysis \<times> nat option" where
  "stop_analysis raised st =
     (if process st \<noteq> None \<and> running st
      then (case raised of
              Some msg \<Rightarrow> (StopFailed 500 msg, st, None)
            | None \<Rightarrow> (Stop True ''Analysis stopped'', st\<lparr>running := False\<rparr>, process st))
      else (Stop False ''No analysis running'', st, None))"

text \<open>
  \<open>get_detections\<close> and \<open>get_session\<close>, the two read endpoints over the local files.
  On a torn file \<open>json.load\<close> raises, and the handler answers with the exception's
  message and HTTP 500.
\<close>

datatype detections_response = DetectionsInfo detections_doc | DetectionsFailed nat

definition get_detections :: "local_store \<Rightarrow> detections_response" where
  "get_detections fs =
     (case detections_file fs of
        Absent \<Rightarrow> DetectionsInfo \<lparr> doc_session_id = None, doc_detections = [] \<rparr>
      | Torn d \<Rightarrow> DetectionsFailed 500
      | Whole d \<Rightarrow> DetectionsInfo d)"

datatype session_response = NoSession | SessionInfo session | SessionFailed nat

definition get_session :: "local_store \<Rightarrow> session_response" where
  "get_session fs =
     (case session_file fs of
        Absent \<Rightarrow> NoSession
      | Torn d \<Rightarrow> SessionFailed 500
      | Whole d \<Rightarrow> SessionInfo d)"

section \<open>The inference engine\<close>

text \<open>
  The YOLO model is a library object. \<open>model.predict(frame, conf, ...)\<close> either raises or
  returns the boxes of \<open>results[0]\<close>; each box carries its class as a float tensor, its
  confidence and its corner coordinates. \<open>model.names\<close> is a dictionary from class id to
  name.
\<close>

record raw_box =
  box_cls :: real
  box_conf :: real
  box_xyxy :: "real \<times> real \<times> real \<times> real"

type_synonym yolo = "frame \<Rightarrow> real \<Rightarrow> error + raw_box list"

text \<open>\<open>int(x)\<close> of a Python float truncates towards zero.\<close>

definition py_int :: "real \<Rightarrow> int" where
  "py_int x = (if 0 \<le> x then \<lfloor>x\<rfloor> else \<lceil>x\<rceil>)"

record engine =
  class_names :: "int \<rightharpoonup> string"
  conf_threshold :: real
  inference_times :: "real list"

definition dummy_input :: frame where
  "dummy_input = \<lparr> frame_shape = (640, 640, 3), frame_pixels = replicate (640 * 640 * 3) 0 \<rparr>"

text \<open>
  \<open>str(e)\<close> of an exception. A \<open>KeyError\<close> prints its key. The text of a
  \<open>ZeroDivisionError\<close> depends on the operation and on the interpreter and is left open.
\<close>

fun message :: "error \<Rightarrow> string" where
  "message (FileNotFoundError m) = m"
| "message (RuntimeError m) = m"
| "message (ModelError m) = m"
| "message (KeyError k) = str_int k"
| "message (SinkError m) = m"

text \<open>
  \<open>InferenceEngine.__init__\<close> with \<open>_load_model\<close>: \<open>present\<close> says whether the model
  file exists, \<open>ctor\<close> is the outcome of \<open>YOLO(path)\<close> (a message when it raises, the
  names otherwise). The warmup calls \<open>self.model.predict\<close> directly, with the library's
  default confidence, not \<open>self.predict\<close>. Whatever the constructor or the warmup raises
  is raised again as a \<open>RuntimeError\<close> that quotes it.
\<close>

definition load_model ::
  "string \<Rightarrow> bool \<Rightarrow> string + (int \<rightharpoonup> string) \<Rightarrow> yolo \<Rightarrow> real \<Rightarrow> error + engine" where
  "load_model path present ctor model conf =
     (if \<not> present
      then Inl (FileNotFoundError
             (''Model file not found: '' @ path @ [CHR 0x0A] @ ''Expected location: '' @ path))
      else case ctor of
        Inl msg \<Rightarrow> Inl (RuntimeError (''Failed to load model: '' @ msg))
      | Inr names \<Rightarrow>
          (case model dummy_input (1 / 4) of
             Inl e \<Rightarrow> Inl (RuntimeError (''Failed to load model: '' @ message e))
           | Inr boxes \<Rightarrow>
               Inr \<lparr> class_names = names, conf_threshold = conf, inference_times = [] \<rparr>))"

text \<open>\<open>_parse_results\<close>: the loop over the boxes; \<open>self.class_names[class_id]\<close> raises
  \<open>KeyError\<close> on a class id the dictionary lacks.\<close>

fun parse_results :: "(int \<rightharpoonup> string) \<Rightarrow> raw_box list \<Rightarrow> error + detection list" where
  "parse_results names [] = Inr []"
| "parse_results names (b # bs) =
     (let cid = py_int (box_cls b) in
      case names cid of
        None \<Rightarrow> Inl (KeyError cid)
      | Some nm \<Rightarrow>
          (case parse_results names bs of
             Inl e \<Rightarrow> Inl e
           | Inr ds \<Rightarrow>
               Inr (\<lparr> class_id = cid, class_name = nm, confidence = box_conf b,
                      bbox = (case box_xyxy b of (a, b', c, d) \<Rightarrow>
                        \<lparr> x1 = py_int a, y1 = py_int b', x2 = py_int c, y2 = py_int d \<rparr>) \<rparr>
                    # ds)))"

text \<open>
  \<open>predict\<close>: \<open>t0\<close> and \<open>t1\<close> are the two readings of \<open>time.time()\<close>. The method has no
  \<open>try\<close>: an exception of the model leaves before the latency is recorded, one of
  \<open>_parse_results\<close> after. The result is the value returned or the exception raised, and
  the engine as the call leaves it.
\<close>

definition predict ::
  "yolo \<Rightarrow> real \<Rightarrow> real \<Rightarrow> engine \<Rightarrow> frame \<Rightarrow> (error + detection list) \<times> engine" where
  "predict model t0 t1 eng fr =
     (case model fr (conf_threshold eng) of
        Inl e \<Rightarrow> (Inl e, eng)
      | Inr boxes \<Rightarrow>
          (parse_results (class_names eng) boxes,
           eng\<lparr>inference_times := inference_times eng @ [(t1 - t0) * 1000]\<rparr>))"

definition get_avg_inference_time :: "engine \<Rightarrow> real" where
  "get_avg_inference_time eng =
     (if inference_times eng \<noteq> []
      then sum_list (inference_times eng) / real (length (inference_times eng))
      else 0)"

definition get_fps :: "engine \<Rightarrow> real" where
  "get_fps eng =
     (let avg = get_avg_inference_time eng in if avg > 0 then 1000 / avg else 0)"

section \<open>The video processor\<close>

text \<open>
  \<open>cv2.VideoCapture\<close> is a library object: whether it opened, the frames it has yet to
  decode, and the properties it reports (floats). A source is a webcam index or a path.
\<close>

record capture =
  cap_is_opened :: bool
  cap_frames :: "frame list"
  cap_prop_fps :: real
  cap_prop_frame_count :: real
  cap_prop_frame_width :: real
  cap_prop_frame_height :: real

datatype source = Webcam int | VideoFile string

record video_processor =
  cap :: "capture option"
  fps :: int
  total_frames :: int
  current_frame :: int
  frame_width :: int
  frame_height :: int

text \<open>
  \<open>__init__\<close> with \<open>_open_source\<close>: \<open>present\<close> says whether the file exists, \<open>c\<close> is
  the capture \<open>cv2.VideoCapture\<close> returns for the source. The path of a video file is
  the one resolved against the project directory, which is what the messages quote.
\<close>

definition open_source :: "source \<Rightarrow> bool \<Rightarrow> capture \<Rightarrow> error + video_processor" where
  "open_source src present c =
     (case src of
        Webcam i \<Rightarrow>
          if \<not> cap_is_opened c then Inl (RuntimeError ''Failed to open webcam'')
          else Inr \<lparr> cap = Some c,
                     fps = (if py_int (cap_prop_fps c) = 0 then 30 else py_int (cap_prop_fps c)),
                     total_frames = - 1,
                     current_frame = 0,
                     frame_width = py_int (cap_prop_frame_width c),
                     frame_height = py_int (cap_prop_frame_height c) \<rparr>
      | VideoFile p \<Rightarrow>
          if \<not> present
          then Inl (FileNotFoundError
                 (''Video file not found: '' @ p @ [CHR 0x0A] @ ''Expected location: '' @ p))
          else if \<not> cap_is_opened c then Inl (RuntimeError (''Failed to open video: '' @ p))
          else Inr \<lparr> cap = Some c,
                     fps = py_int (cap_prop_fps c),
                     total_frames = py_int (cap_prop_frame_count c),
                     current_frame = 0,
                     frame_width = py_int (cap_prop_frame_width c),
                     frame_height = py_int (cap_prop_frame_height c) \<rparr>)"

text \<open>
  \<open>read_frame\<close> returns \<open>(ret, frame)\<close>; the frame is \<open>None\<close> exactly when \<open>ret\<close> is
  false, so the pair is an \<open>option\<close>. A released capture reads nothing.
\<close>

definition read_frame :: "video_processor \<Rightarrow> frame option \<times> video_processor" where
  "read_frame vp =
     (case cap vp of
        None \<Rightarrow> (None, vp)
      | Some c \<Rightarrow>
          (if \<not> cap_is_opened c then (None, vp)
           else case cap_frames c of
             [] \<Rightarrow> (None, vp)
           | f # fs \<Rightarrow>
               (Some f, vp\<lparr>cap := Some (c\<lparr>cap_frames := fs\<rparr>),
                          current_frame := current_frame vp + 1\<rparr>)))"

definition get_progress :: "video_processor \<Rightarrow> real" where
  "get_progress vp =
     (if total_frames vp \<le> 0 then - 1
      else (real_of_int (current_frame vp) / real_of_int (total_frames vp)) * 100)"

definition release :: "video_processor \<Rightarrow> video_processor" where
  "release vp =
     (case cap vp of
        None \<Rightarrow> vp
      | Some c \<Rightarrow> vp\<lparr>cap := Some (c\<lparr>cap_is_opened := False\<rparr>)\<rparr>)"

text \<open>\<open>read_frames k\<close>: \<open>k\<close> calls of \<open>read_frame\<close> in a row, with what each returned.\<close>

fun read_frames :: "nat \<Rightarrow> video_processor \<Rightarrow> frame option list \<times> video_processor" where
  "read_frames 0 vp = ([], vp)"
| "read_frames (Suc k) vp =
     (case read_frame vp of
        (r, vp') \<Rightarrow> (case read_frames k vp' of (rs, vp'') \<Rightarrow> (r # rs, vp'')))"

text \<open>The frames a processor can still deliver.\<close>

definition frames_left :: "video_processor \<Rightarrow> nat" where
  "frames_left vp =
     (case cap vp of
        None \<Rightarrow> 0
      | Some c \<Rightarrow> if cap_is_opened c then length (cap_frames c) else 0)"

section \<open>The pipelines\<close>

text \<open>
  \<open>config.yaml\<close>, with the keys the two pipeline scripts read.
\<close>

record config =
  model_path :: string
  confidence_threshold :: real
  input_path :: string
  display_window :: bool
  log_fps :: bool
  log_interval :: int
  save_detections :: bool

text \<open>
  What a pipeline process reads from outside while it runs:
  \<^item> \<open>load_config\<close>: the outcome of \<open>load_config()\<close>;
  \<open>engine_failure\<close>: the exception of \<open>InferenceEngine(...)\<close>, if it raises;
  \<open>video_present\<close> and \<open>video_capture\<close>: the arguments of \<open>open_source\<close>;
  \<^item> \<open>clock\<close>: \<open>int(time.time())\<close> when the session id is made; \<open>start_stamp\<close>,
  \<open>stamp n\<close> and \<open>end_stamp\<close>: \<open>datetime.now().isoformat()\<close> at the start of the
  session, while frame \<open>n\<close> is handled, and at the end;
  \<^item> \<open>detect\<close>: what \<open>engine.predict(frame)\<close> returns or raises (the detections do
  not depend on the engine's latency list);
  \<^item> \<open>quit_key n\<close>: whether \<open>cv2.waitKey(1)\<close> reports the key q after frame \<open>n\<close> is
  shown; \<open>elapsed n\<close>: \<open>time.time() - start_time\<close> when frame \<open>n\<close> is logged;
  \<^item> for the remote pipeline, whether the database answers: \<open>connect_ok\<close> (the
  client's construction and the first \<open>set_data\<close>), \<open>push_key n\<close> (the key returned by
  the push of frame \<open>n\<close>, \<open>None\<close> when the push raises), \<open>end_ok\<close> (the final update).
\<close>

record worker_env =
  load_config :: "error + config"
  engine_failure :: "error option"
  video_present :: bool
  video_capture :: capture
  clock :: int
  start_stamp :: string
  stamp :: "int \<Rightarrow> string"
  end_stamp :: string
  detect :: "frame \<Rightarrow> error + detection list"
  quit_key :: "int \<Rightarrow> bool"
  elapsed :: "int \<Rightarrow> real"
  connect_ok :: bool
  push_key :: "int \<Rightarrow> string option"
  end_ok :: bool

text \<open>
  A pipeline process that has reached its loop is in the loop, past it with the code after
  the loop done (exit code 0), or gone through its \<open>except Exception\<close> branch (exit
  code 1).
\<close>

datatype phase = Looping | Completed | Crashed error

text \<open>
  The periodic log line: \<open>frame_count % log_interval\<close> divides by the configured interval,
  and \<open>frame_count / elapsed\<close> by the elapsed time, without a guard.
\<close>

definition log_performance :: "config \<Rightarrow> worker_env \<Rightarrow> int \<Rightarrow> error option" where
  "log_performance cfg env n =
     (if log_fps cfg then
        (if log_interval cfg = 0 then Some ZeroDivisionError
         else if n mod log_interval cfg = 0
           then (if elapsed env n = 0 then Some ZeroDivisionError else None)
           else None)
      else None)"

subsection \<open>The local pipeline (\<open>run_inference_local.py\<close>)\<close>

record local_worker =
  l_phase :: phase
  l_config :: config
  l_session_id :: string
  l_video :: video_processor
  l_frame_count :: int
  l_total_detections :: int
  all_detections :: "event list"
  session_data :: session

text \<open>
  The code of \<open>main\<close> before the loop: configuration, session id, engine, video, and the
  first write of the session file. An exception leaves through \<open>except Exception\<close> before
  anything is written.
\<close>

definition local_start :: "worker_env \<Rightarrow> local_store \<Rightarrow> (error + local_worker) \<times> local_store" where
  "local_start env fs =
     (case load_config env of
        Inl e \<Rightarrow> (Inl e, fs)
      | Inr cfg \<Rightarrow>
          let sid = local_session_id (clock env) in
          (case engine_failure env of
             Some e \<Rightarrow> (Inl e, fs)
           | None \<Rightarrow>
               (case open_source (VideoFile (input_path cfg)) (video_present env) (video_capture env) of
                  Inl e \<Rightarrow> (Inl e, fs)
                | Inr vp \<Rightarrow>
                    let sd = \<lparr> sess_session_id = sid, sess_start_time = start_stamp env,
                               status = ''active'', video_path = Some (input_path cfg),
                               frame_count = 0, total_detections = 0,
                               end_time = None, last_update = None \<rparr>
                    in (Inr \<lparr> l_phase = Looping, l_config = cfg, l_session_id = sid,
                              l_video = vp, l_frame_count = 0, l_total_detections = 0,
                              all_detections = [], session_data = sd \<rparr>,
                        fs\<lparr>session_file := Whole sd\<rparr>))))"

text \<open>
  One push to the local sink (lines 144 to 156 of \<open>main\<close>): the session id is added to the
  event, the event is appended to the list of the run, and the whole list is written over
  \<open>current_detections.json\<close>.
\<close>

definition local_push :: "string \<Rightarrow> event \<Rightarrow> event list \<times> local_store \<Rightarrow> event list \<times> local_store" where
  "local_push sid ev p =
     (let evs = fst p @ [ev\<lparr>ev_session_id := Some sid\<rparr>]
      in (evs, (snd p)\<lparr>detections_file :=
                 Whole \<lparr> doc_session_id = Some sid, doc_detections = evs \<rparr>\<rparr>))"

text \<open>The code after the loop: release, the final write of the session file, the archive.\<close>

definition local_finish :: "worker_env \<Rightarrow> local_worker \<Rightarrow> local_store \<Rightarrow> local_worker \<times> local_store" where
  "local_finish env w fs =
     (let sd = (session_data w)\<lparr>status := ''completed'', frame_count := l_frame_count w,
                 total_detections := l_total_detections w, end_time := Some (end_stamp env)\<rparr>
      in (w\<lparr>l_phase := Completed, l_video := release (l_video w), session_data := sd\<rparr>,
          fs\<lparr>session_file := Whole sd,
             archive_files := archive_files fs @ [Whole (sd, all_detections w)]\<rparr>))"

text \<open>
  One turn of \<open>while True\<close>. The loop is left by \<open>break\<close> at the end of the video or on the
  key q (both continue with the code after the loop), or by an exception.
\<close>

definition local_iteration :: "worker_env \<Rightarrow> local_worker \<Rightarrow> local_store \<Rightarrow> local_worker \<times> local_store" where
  "local_iteration env w fs =
     (case read_frame (l_video w) of
        (None, v) \<Rightarrow> local_finish env (w\<lparr>l_video := v\<rparr>) fs
      | (Some fr, v) \<Rightarrow>
          let n = l_frame_count w + 1;
              w1 = w\<lparr>l_video := v, l_frame_count := n\<rparr>
          in (case detect env fr of
                Inl e \<Rightarrow> (w1\<lparr>l_phase := Crashed e\<rparr>, fs)
              | Inr dets \<Rightarrow>
                  let ev = format_detection_event n (stamp env n) dets (frame_shape fr);
                      p = local_push (l_session_id w) ev (all_detections w, fs);
                      w2 = w1\<lparr>all_detections := fst p,
                              l_total_detections := l_total_detections w + int (length dets)\<rparr>
                  in if display_window (l_config w) \<and> quit_key env n
                     then local_finish env w2 (snd p)
                     else (case log_performance (l_config w) env n of
                             Some e \<Rightarrow> (w2\<lparr>l_phase := Crashed e\<rparr>, snd p)
                           | None \<Rightarrow> (w2, snd p))))"

text \<open>\<open>local_steps k\<close>: the process after at most \<open>k\<close> turns of its loop.\<close>

fun local_steps :: "nat \<Rightarrow> worker_env \<Rightarrow> local_worker \<times> local_store \<Rightarrow> local_worker \<times> local_store" where
  "local_steps 0 env p = p"
| "local_steps (Suc k) env p =
     (if l_phase (fst p) = Looping
      then local_steps k env (local_iteration env (fst p) (snd p))
      else p)"

text \<open>
  The whole loop. Every turn that stays in the loop has read a frame, so the number of
  frames the video can still deliver, plus one, bounds the turns.
\<close>

definition local_loop :: "worker_env \<Rightarrow> local_worker \<times> local_store \<Rightarrow> local_worker \<times> local_store" where
  "local_loop env p = local_steps (Suc (frames_left (l_video (fst p)))) env p"

text \<open>\<open>main\<close> of the local pipeline: the exit code (\<open>None\<close> when it returns) and the files.\<close>

definition local_main :: "worker_env \<Rightarrow> local_store \<Rightarrow> (error + local_worker) \<times> local_store" where
  "local_main env fs =
     (case local_start env fs of
        (Inl e, fs') \<Rightarrow> (Inl e, fs')
      | (Inr w, fs') \<Rightarrow> (case local_loop env (w, fs') of (w', fs'') \<Rightarrow> (Inr w', fs'')))"

subsection \<open>The remote pipeline (\<open>firebase_uploader.py\<close>, \<open>run_inference_firebase.py\<close>)\<close>

record uploader =
  up_session_id :: string
  up_frame_count :: int
  up_total_detections :: int
  session_start :: string

text \<open>
  \<open>client.update_data\<close> merges fields into the node at a path; a node that does not exist
  yet starts with every field empty.
\<close>

definition blank_session :: session where
  "blank_session =
     \<lparr> sess_session_id = [], sess_start_time = [], status = [], video_path = None,
       frame_count = 0, total_detections = 0, end_time = None, last_update = None \<rparr>"

definition update_data :: "string \<Rightarrow> (session \<Rightarrow> session) \<Rightarrow> remote_db \<Rightarrow> remote_db" where
  "update_data sid f db =
     db\<lparr>db_sessions := (db_sessions db)
        (sid \<mapsto> f (case db_sessions db sid of None \<Rightarrow> blank_session | Some x \<Rightarrow> x))\<rparr>"

text \<open>
  \<open>FirebaseUploader.__init__\<close> with \<open>_init_session\<close>: \<open>session_id or f"session_..."\<close>
  falls back on the default for \<open>None\<close> and for the empty string. Neither the client's
  construction nor the first \<open>set_data\<close> is inside a \<open>try\<close>.
\<close>

definition uploader_init ::
  "worker_env \<Rightarrow> string option \<Rightarrow> remote_db \<Rightarrow> (error + uploader) \<times> remote_db" where
  "uploader_init env given db =
     (if \<not> connect_ok env then (Inl (SinkError ''Firebase initialization failed''), db)
      else
        let sid = (case given of
                     None \<Rightarrow> api_session_id (clock env)
                   | Some x \<Rightarrow> if x = [] then api_session_id (clock env) else x);
            sd = \<lparr> sess_session_id = sid, sess_start_time = start_stamp env,
                   status = ''active'', video_path = None, frame_count = 0,
                   total_detections = 0, end_time = None, last_update = None \<rparr>
        in (Inr \<lparr> up_session_id = sid, up_frame_count = 0, up_total_detections = 0,
                  session_start = start_stamp env \<rparr>,
            db\<lparr>db_sessions := (db_sessions db)(sid \<mapsto> sd)\<rparr>))"

text \<open>
  \<open>upload_detection_event\<close>: \<open>key\<close> is what \<open>client.push_data\<close> returns, \<open>None\<close> when
  it raises; the method then logs and returns \<open>None\<close>.
\<close>

definition upload_detection_event ::
  "string option \<Rightarrow> uploader \<Rightarrow> event \<Rightarrow> remote_db \<Rightarrow> string option \<times> uploader \<times> remote_db" where
  "upload_detection_event key up ev db =
     (case key of
        None \<Rightarrow> (None, up, db)
      | Some k \<Rightarrow>
          (Some k,
           up\<lparr>up_total_detections := up_total_detections up + detection_count ev\<rparr>,
           db\<lparr>db_detections := db_detections db @ [ev\<lparr>ev_session_id := Some (up_session_id up)\<rparr>]\<rparr>))"

text \<open>
  \<open>_update_session_stats\<close> and \<open>upload_frame_summary\<close>, the only place where the
  uploader's \<open>frame_count\<close> grows. \<open>answered\<close> says whether the update went through.
  Neither pipeline script calls \<open>upload_frame_summary\<close>.
\<close>

definition update_session_stats :: "bool \<Rightarrow> string \<Rightarrow> uploader \<Rightarrow> remote_db \<Rightarrow> remote_db" where
  "update_session_stats answered ts up db =
     (if answered
      then update_data (up_session_id up)
             (\<lambda>x. x\<lparr>frame_count := up_frame_count up,
                     total_detections := up_total_detections up,
                     last_update := Some ts\<rparr>) db
      else db)"

definition upload_frame_summary ::
  "string option \<Rightarrow> bool \<Rightarrow> string \<Rightarrow> uploader \<Rightarrow> event \<Rightarrow> remote_db
     \<Rightarrow> string option \<times> uploader \<times> remote_db" where
  "upload_frame_summary key answered ts up fd db =
     (case key of
        None \<Rightarrow> (None, up, db)
      | Some k \<Rightarrow>
          let db1 = db\<lparr>db_frames := db_frames db @ [fd\<lparr>ev_session_id := Some (up_session_id up)\<rparr>]\<rparr>;
              up1 = up\<lparr>up_frame_count := up_frame_count up + 1\<rparr>
          in (Some k, up1, update_session_stats answered ts up1 db1))"

definition end_session :: "worker_env \<Rightarrow> uploader \<Rightarrow> remote_db \<Rightarrow> remote_db" where
  "end_session env up db =
     (if end_ok env
      then update_data (up_session_id up)
             (\<lambda>x. x\<lparr>status := ''completed'', end_time := Some (end_stamp env),
                     frame_count := up_frame_count up,
                     total_detections := up_total_detections up\<rparr>) db
      else db)"

record remote_worker =
  r_phase :: phase
  r_config :: config
  r_uploader :: uploader
  r_video :: video_processor
  r_frame_count :: int
  all_events :: "event list"
  backup_file :: "event list option"

text \<open>
  \<open>main\<close> before the loop. Once the uploader exists, the \<open>except Exception\<close> branch ends
  the session before it exits.
\<close>

definition remote_start :: "worker_env \<Rightarrow> remote_db \<Rightarrow> (error + remote_worker) \<times> remote_db" where
  "remote_start env db =
     (case load_config env of
        Inl e \<Rightarrow> (Inl e, db)
      | Inr cfg \<Rightarrow>
          (case uploader_init env (Some (firebase_session_id (clock env))) db of
             (Inl e, db1) \<Rightarrow> (Inl e, db1)
           | (Inr up, db1) \<Rightarrow>
               (case engine_failure env of
                  Some e \<Rightarrow> (Inl e, end_session env up db1)
                | None \<Rightarrow>
                    (case open_source (VideoFile (input_path cfg)) (video_present env) (video_capture env) of
                       Inl e \<Rightarrow> (Inl e, end_session env up db1)
                     | Inr vp \<Rightarrow>
                         (Inr \<lparr> r_phase = Looping, r_config = cfg, r_uploader = up,
                                r_video = vp, r_frame_count = 0, all_events = [],
                                backup_file = None \<rparr>, db1)))))"

text \<open>The code after the loop: release, \<open>end_session\<close>, the local backup.\<close>

definition remote_finish :: "worker_env \<Rightarrow> remote_worker \<Rightarrow> remote_db \<Rightarrow> remote_worker \<times> remote_db" where
  "remote_finish env w db =
     (w\<lparr>r_phase := Completed, r_video := release (r_video w),
        backup_file := (if save_detections (r_config w) \<and> all_events w \<noteq> []
                        then Some (all_events w) else None)\<rparr>,
      end_session env (r_uploader w) db)"

definition remote_iteration :: "worker_env \<Rightarrow> remote_worker \<Rightarrow> remote_db \<Rightarrow> remote_worker \<times> remote_db" where
  "remote_iteration env w db =
     (case read_frame (r_video w) of
        (None, v) \<Rightarrow> remote_finish env (w\<lparr>r_video := v\<rparr>) db
      | (Some fr, v) \<Rightarrow>
          let n = r_frame_count w + 1;
              w1 = w\<lparr>r_video := v, r_frame_count := n\<rparr>
          in (case detect env fr of
                Inl e \<Rightarrow> (w1\<lparr>r_phase := Crashed e\<rparr>, end_session env (r_uploader w) db)
              | Inr dets \<Rightarrow>
                  let ev = format_detection_event n (stamp env n) dets (frame_shape fr);
                      u = upload_detection_event (push_key env n) (r_uploader w) ev db;
                      w2 = w1\<lparr>r_uploader := fst (snd u), all_events := all_events w @ [ev]\<rparr>;
                      db2 = snd (snd u)
                  in if display_window (r_config w) \<and> quit_key env n
                     then remote_finish env w2 db2
                     else (case log_performance (r_config w) env n of
                             Some e \<Rightarrow>
                               (w2\<lparr>r_phase := Crashed e\<rparr>, end_session env (r_uploader w2) db2)
                           | None \<Rightarrow> (w2, db2))))"

fun remote_steps :: "nat \<Rightarrow> worker_env \<Rightarrow> remote_worker \<times> remote_db \<Rightarrow> remote_worker \<times> remote_db" where
  "remote_steps 0 env p = p"
| "remote_steps (Suc k) env p =
     (if r_phase (fst p) = Looping
      then remote_steps k env (remote_iteration env (fst p) (snd p))
      else p)"

definition remote_loop :: "worker_env \<Rightarrow> remote_worker \<times> remote_db \<Rightarrow> remote_worker \<times> remote_db" where
  "remote_loop env p = remote_steps (Suc (frames_left (r_video (fst p)))) env p"

definition remote_main :: "worker_env \<Rightarrow> remote_db \<Rightarrow> (error + remote_worker) \<times> remote_db" where
  "remote_main env db =
     (case remote_start env db of
        (Inl e, db') \<Rightarrow> (Inl e, db')
      | (Inr w, db') \<Rightarrow> (case remote_loop env (w, db') of (w', db'') \<Rightarrow> (Inr w', db'')))"

section \<open>The controller and its subprocess\<close>

text \<open>
  The server, the two stores and the pipeline subprocess together. \<open>worker\<close> is the
  live subprocess, \<open>None\<close> when none is alive. \<open>Popen.terminate()\<close> sends SIGTERM (or
  calls TerminateProcess): the scripts install no handler for it and catch only
  \<open>KeyboardInterrupt\<close> and \<open>Exception\<close>, so the subprocess ends where it stands, without
  running its \<open>except\<close> branches or the code after its loop, and the stores keep what
  had reached them.
\<close>

record system =
  api :: analysis
  files :: store
  worker :: "nat option"

definition stop_request :: "string option \<Rightarrow> system \<Rightarrow> stop_response \<times> system" where
  "stop_request raised sys =
     (case stop_analysis raised (api sys) of
        (r, st', Some pid) \<Rightarrow> (r, sys\<lparr>api := st', worker := None\<rparr>)
      | (r, st', None) \<Rightarrow> (r, sys\<lparr>api := st'\<rparr>))"

section \<open>What a reader or a termination can meet\<close>

text \<open>
  A request to the server, or the termination of the subprocess, can come at any moment of
  a run, also between the open and the close of a file. The functions below list, in
  order, the states of the store that a run passes through, each with a flag that says
  whether the process has left its loop (it is in the code after the loop, or in an
  \<open>except\<close> branch) and with the number of frames read so far. Within one write of a file
  the states are those of \<open>dump_json\<close>; a call to the database is one step.
\<close>

type_synonym 'a snapshot = "bool \<times> int \<times> 'a"

text \<open>The code of the local \<open>main\<close> before the loop: the first write of the session file.\<close>

definition local_start_states :: "worker_env \<Rightarrow> local_store \<Rightarrow> local_store snapshot list" where
  "local_start_states env fs =
     (case local_start env fs of
        (Inl e, fs') \<Rightarrow> [(False, 0, fs), (True, 0, fs)]
      | (Inr w, fs') \<Rightarrow>
          (False, 0, fs) #
          map (\<lambda>f. (False, 0, fs\<lparr>session_file := f\<rparr>)) (dump_json (session_data w)))"

text \<open>
  The code after the loop: the final write of the session file, then that of the archive
  file.
\<close>

definition local_finish_states :: "worker_env \<Rightarrow> local_worker \<Rightarrow> local_store \<Rightarrow> local_store snapshot list" where
  "local_finish_states env w fs =
     (let sd = session_data (fst (local_finish env w fs));
          c = l_frame_count w
      in (True, c, fs) #
         map (\<lambda>f. (True, c, fs\<lparr>session_file := f\<rparr>)) (dump_json sd) @
         map (\<lambda>f. (True, c, fs\<lparr>session_file := Whole sd,
                                  archive_files := archive_files fs @ [f]\<rparr>))
           (dump_json (sd, all_detections w)))"

text \<open>
  One turn of the loop: the frame is read and counted, the detections file is rewritten, and
  the turn may go on into the code after the loop or into the \<open>except\<close> branch.
\<close>

definition local_iteration_states :: "worker_env \<Rightarrow> local_worker \<Rightarrow> local_store \<Rightarrow> local_store snapshot list" where
  "local_iteration_states env w fs =
     (case read_frame (l_video w) of
        (None, v) \<Rightarrow> local_finish_states env (w\<lparr>l_video := v\<rparr>) fs
      | (Some fr, v) \<Rightarrow>
          let n = l_frame_count w + 1;
              w1 = w\<lparr>l_video := v, l_frame_count := n\<rparr>
          in (False, n, fs) #
             (case detect env fr of
                Inl e \<Rightarrow> [(True, n, fs)]
              | Inr dets \<Rightarrow>
                  let ev = format_detection_event n (stamp env n) dets (frame_shape fr);
                      p = local_push (l_session_id w) ev (all_detections w, fs);
                      w2 = w1\<lparr>all_detections := fst p,
                              l_total_detections := l_total_detections w + int (length dets)\<rparr>
                  in map (\<lambda>f. (False, n, fs\<lparr>detections_file := f\<rparr>))
                       (dump_json \<lparr> doc_session_id = Some (l_session_id w),
                                    doc_detections = fst p \<rparr>) @
                     (if display_window (l_config w) \<and> quit_key env n
                      then local_finish_states env w2 (snd p)
                      else (case log_performance (l_config w) env n of
                              Some e \<Rightarrow> [(True, n, snd p)]
                            | None \<Rightarrow> []))))"

fun local_trace :: "nat \<Rightarrow> worker_env \<Rightarrow> local_worker \<times> local_store \<Rightarrow> local_store snapshot list" where
  "local_trace 0 env p = []"
| "local_trace (Suc k) env p =
     (if l_phase (fst p) = Looping
      then local_iteration_states env (fst p) (snd p) @
           local_trace k env (local_iteration env (fst p) (snd p))
      else [])"

text \<open>The local pipeline from its start to the end of the \<open>k\<close>-th turn of its loop.\<close>

definition local_run_states :: "nat \<Rightarrow> worker_env \<Rightarrow> local_store \<Rightarrow> local_store snapshot list" where
  "local_run_states k env fs =
     local_start_states env fs @
     (case local_start env fs of
        (Inl e, fs') \<Rightarrow> []
      | (Inr w, fs') \<Rightarrow> local_trace k env (w, fs'))"







section \<open>Example inputs\<close>

text \<open>Concrete values on which the theorems below are instantiated.\<close>

definition empty_store :: store where
  "empty_store =
     \<lparr> local_files = \<lparr> detections_file = Absent, session_file = Absent, archive_files = [] \<rparr>,
       remote = \<lparr> db_detections = [], db_frames = [], db_sessions = Map.empty \<rparr> \<rparr>"

definition example_api_env :: api_env where
  "example_api_env =
     \<lparr> firebase_enabled = False, path_exists = (\<lambda>p. p = ''video/uploads/a.mp4''),
       now = 1770000000, now_iso = ''2026-02-08T01:30:31'', remote_up = True \<rparr>"

definition running_analysis :: analysis where
  "running_analysis =
     \<lparr> running = True, session_id = Some ''session_1769999000'',
       video_name = Some ''b.mp4'', start_time = Some ''2026-02-08T01:13:51'',
       process = Some 4242 \<rparr>"

definition fresh_engine :: engine where
  "fresh_engine =
     \<lparr> class_names = [0 \<mapsto> ''Early Blight''], conf_threshold = 1 / 4, inference_times = [] \<rparr>"

definition empty_model :: yolo where
  "empty_model = (\<lambda>fr c. Inr [])"

definition failing_model :: yolo where
  "failing_model = (\<lambda>fr c. Inl (ModelError ''CUDA out of memory''))"

definition small_frame :: frame where
  "small_frame = \<lparr> frame_shape = (2, 2, 3), frame_pixels = replicate 12 0 \<rparr>"

definition example_capture :: capture where
  "example_capture =
     \<lparr> cap_is_opened = True, cap_frames = [small_frame, small_frame, small_frame],
       cap_prop_fps = 30, cap_prop_frame_count = 3,
       cap_prop_frame_width = 2, cap_prop_frame_height = 2 \<rparr>"

definition under_reported_capture :: capture where
  "under_reported_capture =
     \<lparr> cap_is_opened = True, cap_frames = [small_frame, small_frame, small_frame],
       cap_prop_fps = 30, cap_prop_frame_count = 2,
       cap_prop_frame_width = 2, cap_prop_frame_height = 2 \<rparr>"

definition example_processor :: video_processor where
  "example_processor =
     \<lparr> cap = Some example_capture, fps = 30, total_frames = 3, current_frame = 0,
       frame_width = 2, frame_height = 2 \<rparr>"


section \<open>Pushing to the local sink\<close>

text \<open>
  A run pushes its events one after the other: \<open>push_all\<close> is \<open>local_push\<close> over a list
  of events, first event first.
\<close>

fun push_all :: "string \<Rightarrow> event list \<Rightarrow> event list \<times> local_store \<Rightarrow> event list \<times> local_store" where
  "push_all sid [] p = p"
| "push_all sid (e # es) p = push_all sid es (local_push sid e p)"

section \<open>Invariant of the local pipeline\<close>

text \<open>
  What holds of a local pipeline process and the files between two turns of its loop, when
  it started on cleared files: the session file is the process's own session dictionary;
  the detections file is absent before the first push and holds the whole list of the run
  after; every event carries the session id and events are numbered from 1; the counters
  agree with the list and with the video processor; and the session dictionary reads
  "active" with counts 0 until the code after the loop has run.
\<close>

definition local_inv :: "local_worker \<Rightarrow> local_store \<Rightarrow> bool" where
  "local_inv w fs =
     (session_file fs = Whole (session_data w) \<and>
      sess_session_id (session_data w) = l_session_id w \<and>
      detections_file fs =
        (if all_detections w = [] then Absent
         else Whole \<lparr> doc_session_id = Some (l_session_id w), doc_detections = all_detections w \<rparr>) \<and>
      list_all (\<lambda>e. ev_session_id e = Some (l_session_id w)) (all_detections w) \<and>
      map frame_id (all_detections w) = map int [1..<Suc (length (all_detections w))] \<and>
      sum_list (map detection_count (all_detections w)) = l_total_detections w \<and>
      l_frame_count w = current_frame (l_video w) \<and>
      int (length (all_detections w)) \<le> l_frame_count w \<and>
      (if l_phase w = Completed
       then status (session_data w) = ''completed'' \<and>
            frame_count (session_data w) = l_frame_count w \<and>
            total_detections (session_data w) = l_total_detections w \<and>
            end_time (session_data w) \<noteq> None \<and>
            l_frame_count w = int (length (all_detections w))
       else status (session_data w) = ''active'' \<and>
            frame_count (session_data w) = 0 \<and>
            total_detections (session_data w) = 0 \<and>
            end_time (session_data w) = None \<and>
            l_frame_count w \<le> int (length (all_detections w)) + 1 \<and>
            (l_phase w = Looping \<longrightarrow> l_frame_count w = int (length (all_detections w)))))"

definition early_blight :: detection where
  "early_blight =
     \<lparr> class_id = 0, class_name = ''Early Blight'', confidence = 4 / 5,
       bbox = \<lparr> x1 = 0, y1 = 0, x2 = 1, y2 = 1 \<rparr> \<rparr>"

definition blighted_frame :: frame where
  "blighted_frame = \<lparr> frame_shape = (2, 2, 3), frame_pixels = [1] \<rparr>"

definition clear_frame :: frame where
  "clear_frame = \<lparr> frame_shape = (2, 2, 3), frame_pixels = [0] \<rparr>"

definition ten_frame_capture :: capture where
  "ten_frame_capture =
     \<lparr> cap_is_opened = True,
       cap_frames = [clear_frame, clear_frame, blighted_frame, clear_frame, clear_frame,
                     clear_frame, blighted_frame, clear_frame, clear_frame, clear_frame],
       cap_prop_fps = 30, cap_prop_frame_count = 10,
       cap_prop_frame_width = 2, cap_prop_frame_height = 2 \<rparr>"

definition example_config :: config where
  "example_config =
     \<lparr> model_path = ''models/best.pt'', confidence_threshold = 1 / 4,
       input_path = ''video/uploads/a.mp4'', display_window = False, log_fps = True,
       log_interval = 30, save_detections = True \<rparr>"

definition example_worker_env :: worker_env where
  "example_worker_env =
     \<lparr> load_config = Inr example_config, engine_failure = None, video_present = True,
       video_capture = ten_frame_capture, clock = 1770000001,
       start_stamp = ''2026-02-08T01:30:33'', stamp = (\<lambda>n. ''2026-02-08T01:30:34''),
       end_stamp = ''2026-02-08T01:30:40'',
       detect = (\<lambda>f. Inr (if frame_pixels f = [1] then [early_blight] else [])),
       quit_key = (\<lambda>n. False), elapsed = (\<lambda>n. 1),
       connect_ok = True, push_key = (\<lambda>n. Some ''-OkFirebaseKey''), end_ok = True \<rparr>"

definition example_local_start :: "(error + local_worker) \<times> local_store" where
  "example_local_start = local_start example_worker_env (local_files empty_store)"

definition one_frame_capture :: capture where
  "one_frame_capture =
     \<lparr> cap_is_opened = True, cap_frames = [blighted_frame],
       cap_prop_fps = 30, cap_prop_frame_count = 1,
       cap_prop_frame_width = 2, cap_prop_frame_height = 2 \<rparr>"

definition one_frame_env :: worker_env where
  "one_frame_env = example_worker_env\<lparr>video_capture := one_frame_capture\<rparr>"




section \<open>Invariant of the remote pipeline\<close>

text \<open>
  What holds of the uploader and the database all through a run of the remote pipeline
  that started on a cleared \<open>/detections\<close>: the uploader's \<open>frame_count\<close> is still 0,
  every pushed event carries the uploader's session id, the uploader's detection total is
  the total of the pushed events, and the session record under the uploader's id names
  that id and has \<open>frame_count\<close> 0.
\<close>

definition remote_inv :: "uploader \<Rightarrow> remote_db \<Rightarrow> bool" where
  "remote_inv up db =
     (up_frame_count up = 0 \<and>
      list_all (\<lambda>e. ev_session_id e = Some (up_session_id up)) (db_detections db) \<and>
      up_total_detections up = sum_list (map detection_count (db_detections db)) \<and>
      (\<exists>sd. db_sessions db (up_session_id up) = Some sd \<and>
            sess_session_id sd = up_session_id up \<and> frame_count sd = 0))"

section \<open>What a stop can leave behind\<close>













definition example_run_states :: "local_store snapshot list" where
  "example_run_states =
     local_run_states (Suc (Suc 0)) example_worker_env (local_files empty_store)"

section \<open>Job control: theorems\<close>


text \<open>
  C1. While a job is running, every start request, whatever its body, is answered with the
  error "Analysis already in progress" (HTTP 400); the global state (running flag,
  session id, video name, start time, process handle) and both stores are returned
  unchanged, and no background thread is started.
\<close>

theorem start_while_running_rejected:
  assumes "running st"
  shows "start_analysis env body st s = (Failed 400 ''Analysis already in progress'', st, s, None)"
  using assms by (simp add: start_analysis_def)

theorem start_while_running_rejected_witness:
  "running running_analysis \<and>
   start_analysis example_api_env (Object (Some ''video/uploads/a.mp4'')) running_analysis empty_store
     = (Failed 400 ''Analysis already in progress'', running_analysis, empty_store, None)"
proof -
  have r: "running running_analysis"
    by (simp add: running_analysis_def)
  from r start_while_running_rejected [OF r] show ?thesis
    by simp
qed

text \<open>
  C9. A stop request that arrives while no job is running is answered with
  \<open>success = false\<close> ("No analysis running"), not with an error: \<open>terminate()\<close> is
  not called, so nothing can raise. It returns the global state, the files and the
  subprocess slot unchanged, so repeating it gives the same answer and the same state.
\<close>

theorem stop_when_idle:
  assumes "\<not> running st"
  shows "stop_analysis raised st = (Stop False ''No analysis running'', st, None) \<and>
         stop_analysis raised (fst (snd (stop_analysis raised st))) = stop_analysis raised st \<and>
         stop_request raised \<lparr> api = st, files = fs, worker = w \<rparr>
           = (Stop False ''No analysis running'', \<lparr> api = st, files = fs, worker = w \<rparr>)"
  using assms by (simp add: stop_analysis_def stop_request_def)

theorem stop_when_idle_witness:
  "\<not> running initial_analysis \<and>
   stop_analysis None initial_analysis = (Stop False ''No analysis running'', initial_analysis, None) \<and>
   stop_analysis None (fst (snd (stop_analysis None initial_analysis)))
     = stop_analysis None initial_analysis"
proof -
  have i: "\<not> running initial_analysis"
    by (simp add: initial_analysis_def)
  from i stop_when_idle [OF i, of None empty_store None] show ?thesis
    by simp
qed

section \<open>The inference engine: theorems\<close>

lemma load_model_no_samples:
  "load_model path present ctor model conf = Inr eng \<Longrightarrow> inference_times eng = []"
  by (auto simp: load_model_def split: if_splits sum.splits)

lemma get_fps_positive:
  "0 < get_avg_inference_time eng \<Longrightarrow>
     get_fps eng = 1000 / get_avg_inference_time eng \<and> 0 < get_fps eng"
  by (simp add: get_fps_def)

lemma get_fps_guarded:
  "get_avg_inference_time eng \<le> 0 \<Longrightarrow> get_fps eng = 0"
  by (simp add: get_fps_def)

lemma get_avg_no_samples:
  "inference_times eng = [] \<Longrightarrow> get_avg_inference_time eng = 0"
  by (simp add: get_avg_inference_time_def)

lemma get_avg_samples:
  "inference_times eng \<noteq> [] \<Longrightarrow>
     get_avg_inference_time eng = sum_list (inference_times eng) / real (length (inference_times eng))"
  by (simp add: get_avg_inference_time_def)

text \<open>
  C8, as stated, fails: a prediction whose two clock readings are equal records a latency
  of 0 ms, the average is then 0, and \<open>get_fps\<close> takes its guard \<open>avg > 0\<close> to 0, after
  one call of \<open>predict\<close>.
\<close>

theorem fps_after_predict_counterexample:
  "inference_times (snd (predict empty_model 5 5 fresh_engine small_frame)) = [0] \<and>
   get_fps (snd (predict empty_model 5 5 fresh_engine small_frame)) = 0"
  by (simp add: predict_def empty_model_def fresh_engine_def get_fps_def
      get_avg_inference_time_def)

text \<open>
  C8, amended. \<open>get_fps\<close> is 0 for an engine as \<open>load_model\<close> returns it (the warmup
  records no latency) and whenever no latency is recorded; once latencies are recorded and
  their average is positive, it is 1000 divided by that average (their sum over their
  number) and positive; when the average is not positive it is 0.
\<close>

theorem get_fps_cases:
  "(load_model path present ctor model conf = Inr eng \<longrightarrow> get_fps eng = 0) \<and>
   (inference_times eng = [] \<longrightarrow> get_fps eng = 0) \<and>
   (inference_times eng \<noteq> [] \<and> 0 < get_avg_inference_time eng \<longrightarrow>
      get_avg_inference_time eng = sum_list (inference_times eng) / real (length (inference_times eng)) \<and>
      get_fps eng = 1000 / get_avg_inference_time eng \<and> 0 < get_fps eng) \<and>
   (get_avg_inference_time eng \<le> 0 \<longrightarrow> get_fps eng = 0)"
proof (intro conjI impI)
  assume "load_model path present ctor model conf = Inr eng"
  then have "inference_times eng = []"
    by (rule load_model_no_samples)
  then show "get_fps eng = 0"
    by (simp add: get_fps_guarded get_avg_no_samples)
next
  assume "inference_times eng = []"
  then show "get_fps eng = 0"
    by (simp add: get_fps_guarded get_avg_no_samples)
next
  assume a: "inference_times eng \<noteq> [] \<and> 0 < get_avg_inference_time eng"
  then show "get_avg_inference_time eng = sum_list (inference_times eng) / real (length (inference_times eng))"
    by (simp add: get_avg_samples)
  from a show "get_fps eng = 1000 / get_avg_inference_time eng"
    by (simp add: get_fps_positive)
  from a show "0 < get_fps eng"
    by (simp add: get_fps_positive)
next
  assume "get_avg_inference_time eng \<le> 0"
  then show "get_fps eng = 0"
    by (rule get_fps_guarded)
qed

theorem get_fps_cases_witness:
  "load_model ''models/best.pt'' True (Inr [0 \<mapsto> ''Early Blight'']) empty_model (1 / 4) = Inr fresh_engine \<and>
   get_fps fresh_engine = 0 \<and>
   inference_times (snd (predict empty_model 0 (1 / 50) fresh_engine small_frame)) = [20] \<and>
   get_avg_inference_time (snd (predict empty_model 0 (1 / 50) fresh_engine small_frame)) = 20 \<and>
   get_fps (snd (predict empty_model 0 (1 / 50) fresh_engine small_frame)) = 50 \<and>
   get_avg_inference_time (snd (predict empty_model 5 5 fresh_engine small_frame)) \<le> 0 \<and>
   get_fps (snd (predict empty_model 5 5 fresh_engine small_frame)) = 0"
proof -
  let ?e = "snd (predict empty_model 0 (1 / 50) fresh_engine small_frame)"
  let ?z = "snd (predict empty_model 5 5 fresh_engine small_frame)"
  have l: "load_model ''models/best.pt'' True (Inr [0 \<mapsto> ''Early Blight'']) empty_model (1 / 4) = Inr fresh_engine"
    by (simp add: load_model_def empty_model_def fresh_engine_def)
  have t: "inference_times ?e = [20]"
    by (simp add: predict_def empty_model_def fresh_engine_def)
  have a: "get_avg_inference_time ?e = 20"
    by (simp add: get_avg_inference_time_def predict_def empty_model_def fresh_engine_def)
  have z: "get_avg_inference_time ?z \<le> 0"
    by (simp add: get_avg_inference_time_def predict_def empty_model_def fresh_engine_def)
  have p: "inference_times ?e \<noteq> [] \<and> 0 < get_avg_inference_time ?e"
    unfolding t a by simp
  have f0: "get_fps fresh_engine = 0"
    using get_fps_cases [of "''models/best.pt''" True "Inr [0 \<mapsto> ''Early Blight'']" empty_model "1 / 4" fresh_engine] l
    by blast
  have f1: "get_fps ?e = 1000 / get_avg_inference_time ?e"
    using get_fps_cases [of "''models/best.pt''" True "Inr [0 \<mapsto> ''Early Blight'']" empty_model "1 / 4" ?e] p
    by blast
  have f2: "get_fps ?z = 0"
    using get_fps_cases [of "''models/best.pt''" True "Inr [0 \<mapsto> ''Early Blight'']" empty_model "1 / 4" ?z] z
    by blast
  have f3: "get_fps ?e = 50"
    unfolding f1 a by simp
  show ?thesis
    by (intro conjI l t a z f0 f2 f3)
qed

section \<open>The video processor: theorems\<close>

lemma read_frame_current:
  "read_frame vp = (r, vp') \<Longrightarrow>
     total_frames vp' = total_frames vp \<and>
     current_frame vp' = current_frame vp + (if r = None then 0 else 1) \<and>
     int (frames_left vp') = int (frames_left vp) - (if r = None then 0 else 1)"
  by (auto simp: read_frame_def frames_left_def split: option.splits if_splits list.splits)

lemma read_frames_current:
  "read_frames k vp = (rs, vp') \<Longrightarrow>
     total_frames vp' = total_frames vp \<and>
     current_frame vp' = current_frame vp + int (length (filter (\<lambda>r. r \<noteq> None) rs)) \<and>
     int (frames_left vp') = int (frames_left vp) - int (length (filter (\<lambda>r. r \<noteq> None) rs))"
proof (induction k arbitrary: vp rs vp')
  case 0
  then show ?case by simp
next
  case (Suc k)
  obtain r v1 where r: "read_frame vp = (r, v1)"
    by (cases "read_frame vp")
  obtain rs1 v2 where rs: "read_frames k v1 = (rs1, v2)"
    by (cases "read_frames k v1")
  from Suc.prems r rs have e: "rs = r # rs1" "vp' = v2"
    by simp_all
  from read_frame_current [OF r] Suc.IH [OF rs] e show ?case
    by (cases r) simp_all
qed

lemma open_file_fields:
  "open_source (VideoFile p) present c = Inr vp \<Longrightarrow>
     total_frames vp = py_int (cap_prop_frame_count c) \<and> current_frame vp = 0 \<and>
     frames_left vp = length (cap_frames c)"
  by (auto simp: open_source_def frames_left_def split: if_splits)

lemma open_webcam_fields:
  "open_source (Webcam i) present c = Inr vp \<Longrightarrow> total_frames vp = - 1"
  by (auto simp: open_source_def split: if_splits)

lemma progress_formula:
  "0 < total_frames vp \<Longrightarrow>
     get_progress vp = 100 * real_of_int (current_frame vp) / real_of_int (total_frames vp)"
  by (simp add: get_progress_def)

lemma progress_undefined:
  "0 \<le> current_frame vp \<Longrightarrow> (get_progress vp = - 1) = (total_frames vp \<le> 0)"
proof (cases "total_frames vp \<le> 0")
  case True
  then show ?thesis by (simp add: get_progress_def)
next
  case False
  assume c: "0 \<le> current_frame vp"
  from False c have "0 \<le> (real_of_int (current_frame vp) / real_of_int (total_frames vp)) * 100"
    by simp
  with False show ?thesis by (simp add: get_progress_def)
qed

lemma progress_bounds:
  assumes "0 < total_frames vp" "0 \<le> current_frame vp" "current_frame vp \<le> total_frames vp"
  shows "0 \<le> get_progress vp \<and> get_progress vp \<le> 100"
proof -
  define q where "q = real_of_int (current_frame vp) / real_of_int (total_frames vp)"
  from assms have q1: "q \<le> 1"
    unfolding q_def by (simp add: divide_le_eq_1)
  from assms have q0: "0 \<le> q"
    unfolding q_def by simp
  from assms have g: "get_progress vp = q * 100"
    unfolding q_def by (simp add: get_progress_def)
  from q0 q1 show ?thesis
    unfolding g by simp
qed

text \<open>
  C7, as stated, fails: \<open>total_frames\<close> is the frame count the container reports, and
  nothing in \<open>read_frame\<close> or \<open>get_progress\<close> ties it to the frames the capture delivers.
  A file that reports 2 frames and delivers 3 has progress 150 after the third read.
\<close>

theorem progress_above_100_counterexample:
  "(case open_source (VideoFile ''video/test.mp4'') True under_reported_capture of
      Inl e \<Rightarrow> 0
    | Inr vp \<Rightarrow> get_progress (snd (read_frames (Suc (Suc (Suc 0))) vp))) = 150"
  by (simp add: open_source_def under_reported_capture_def py_int_def read_frame_def
      get_progress_def)

text \<open>
  C7, amended. After any number of calls of \<open>read_frame\<close>: a webcam source has progress
  \<open>- 1\<close>; for a file source \<open>current_frame\<close> is the number of calls that returned a
  frame, the progress is \<open>- 1\<close> exactly when \<open>total_frames\<close> is not positive, it is
  \<open>100 * current_frame / total_frames\<close> otherwise, and it lies between 0 and 100 when the
  frame count the container reports is the number of frames it delivers.
\<close>

theorem progress_of_source:
  assumes "read_frames k vp0 = (rs, vp)"
  shows "(open_source (Webcam i) present c = Inr vp0 \<longrightarrow> get_progress vp = - 1) \<and>
         (open_source (VideoFile p) present c = Inr vp0 \<longrightarrow>
            current_frame vp = int (length (filter (\<lambda>r. r \<noteq> None) rs)) \<and>
            (get_progress vp = - 1) = (total_frames vp \<le> 0) \<and>
            (0 < total_frames vp \<longrightarrow>
               get_progress vp = 100 * real_of_int (current_frame vp) / real_of_int (total_frames vp)) \<and>
            (0 < total_frames vp \<and> cap_prop_frame_count c = real (length (cap_frames c)) \<longrightarrow>
               0 \<le> get_progress vp \<and> get_progress vp \<le> 100))"
proof (intro conjI impI)
  assume "open_source (Webcam i) present c = Inr vp0"
  then have "total_frames vp0 = - 1" by (rule open_webcam_fields)
  with read_frames_current [OF assms] show "get_progress vp = - 1"
    by (simp add: get_progress_def)
next
  assume o: "open_source (VideoFile p) present c = Inr vp0"
  note f = open_file_fields [OF o] and r = read_frames_current [OF assms]
  from f r show cur: "current_frame vp = int (length (filter (\<lambda>r. r \<noteq> None) rs))"
    by simp
  then have nn: "0 \<le> current_frame vp" by simp
  from nn show "(get_progress vp = - 1) = (total_frames vp \<le> 0)"
    by (rule progress_undefined)
  {
    assume "0 < total_frames vp"
    then show "get_progress vp = 100 * real_of_int (current_frame vp) / real_of_int (total_frames vp)"
      by (rule progress_formula)
  }
  {
    assume a: "0 < total_frames vp \<and> cap_prop_frame_count c = real (length (cap_frames c))"
    then have "py_int (cap_prop_frame_count c) = int (length (cap_frames c))"
      by (simp add: py_int_def)
    with f r have "current_frame vp \<le> total_frames vp"
      by simp
    with a nn show "0 \<le> get_progress vp" "get_progress vp \<le> 100"
      using progress_bounds [of vp] by simp_all
  }
qed

theorem progress_of_source_witness:
  "open_source (VideoFile ''video/test.mp4'') True example_capture = Inr example_processor \<and>
   cap_prop_frame_count example_capture = real (length (cap_frames example_capture)) \<and>
   fst (read_frames (Suc (Suc 0)) example_processor) = [Some small_frame, Some small_frame] \<and>
   total_frames (snd (read_frames (Suc (Suc 0)) example_processor)) = 3 \<and>
   current_frame (snd (read_frames (Suc (Suc 0)) example_processor)) = 2 \<and>
   get_progress (snd (read_frames (Suc (Suc 0)) example_processor)) = 200 / 3 \<and>
   0 \<le> get_progress (snd (read_frames (Suc (Suc 0)) example_processor)) \<and>
   get_progress (snd (read_frames (Suc (Suc 0)) example_processor)) \<le> 100"
proof -
  define rs where "rs = fst (read_frames (Suc (Suc 0)) example_processor)"
  define v where "v = snd (read_frames (Suc (Suc 0)) example_processor)"
  have r: "read_frames (Suc (Suc 0)) example_processor = (rs, v)"
    by (simp add: rs_def v_def)
  have o: "open_source (VideoFile ''video/test.mp4'') True example_capture = Inr example_processor"
    by (simp add: open_source_def example_capture_def example_processor_def py_int_def)
  have c: "cap_prop_frame_count example_capture = real (length (cap_frames example_capture))"
    by (simp add: example_capture_def)
  have f: "rs = [Some small_frame, Some small_frame]"
    by (simp add: rs_def read_frame_def example_processor_def example_capture_def
        split: prod.splits)
  have t: "total_frames v = 3"
    by (simp add: v_def read_frame_def example_processor_def example_capture_def
        split: prod.splits)
  note p = progress_of_source [OF r, of 0 True example_capture "''video/test.mp4''"]
  from p o have cur: "current_frame v = int (length (filter (\<lambda>r. r \<noteq> None) rs))"
    by blast
  from p o t have g: "get_progress v = 100 * real_of_int (current_frame v) / real_of_int (total_frames v)"
    by simp
  from p o t c have b: "0 \<le> get_progress v \<and> get_progress v \<le> 100"
    by simp
  from cur f have c2: "current_frame v = 2"
    by simp
  from g c2 t have g2: "get_progress v = 200 / 3"
    by simp
  from o c f t c2 g2 b show ?thesis
    unfolding rs_def v_def by blast
qed

section \<open>Prediction failures: theorems\<close>

lemma parse_results_ok:
  "\<forall>b\<in>set boxes. py_int (box_cls b) \<in> dom names \<Longrightarrow>
     \<exists>ds. parse_results names boxes = Inr ds \<and> length ds = length boxes"
  by (induction boxes) (auto simp: Let_def split: prod.splits)

lemma parse_results_key_error:
  "parse_results names boxes = Inl e \<Longrightarrow>
     \<exists>b\<in>set boxes. e = KeyError (py_int (box_cls b)) \<and> names (py_int (box_cls b)) = None"
  by (induction boxes) (auto simp: Let_def split: option.splits sum.splits)

lemma local_iteration_crash:
  "read_frame (l_video w) = (Some fr, v) \<Longrightarrow> detect env fr = Inl e \<Longrightarrow>
     l_phase (fst (local_iteration env w fs)) = Crashed e \<and> snd (local_iteration env w fs) = fs"
  by (simp add: local_iteration_def Let_def)

text \<open>
  C5, as stated, fails: \<open>predict\<close> has no exception handling, so an exception of the
  model's inference is the outcome of \<open>predict\<close>; no empty list takes its place.
\<close>

theorem predict_raises_counterexample:
  "predict failing_model 0 (1 / 50) fresh_engine small_frame
     = (Inl (ModelError ''CUDA out of memory''), fresh_engine) \<and>
   fst (predict failing_model 0 (1 / 50) fresh_engine small_frame) \<noteq> Inr []"
  by (simp add: predict_def failing_model_def)

text \<open>
  C5, amended. An exception raised by the model's inference is raised by \<open>predict\<close>, with
  the engine unchanged. When the inference succeeds and every class id of its boxes is a key
  of the model's names, \<open>predict\<close> returns one detection per box and records one latency.
  In the pipeline loop an exception of \<open>predict\<close> is not absorbed: the loop ends through
  the \<open>except Exception\<close> branch (exit code 1) and the files stay as they were.
\<close>

theorem predict_outcomes:
  "(model fr (conf_threshold eng) = Inl e \<longrightarrow> predict model t0 t1 eng fr = (Inl e, eng)) \<and>
   (model fr (conf_threshold eng) = Inr boxes \<and>
      (\<forall>b\<in>set boxes. py_int (box_cls b) \<in> dom (class_names eng)) \<longrightarrow>
      (\<exists>ds. fst (predict model t0 t1 eng fr) = Inr ds \<and> length ds = length boxes) \<and>
      inference_times (snd (predict model t0 t1 eng fr))
        = inference_times eng @ [(t1 - t0) * 1000]) \<and>
   (read_frame (l_video w) = (Some fr, v) \<and> detect env fr = Inl e \<longrightarrow>
      l_phase (fst (local_iteration env w fs)) = Crashed e \<and>
      snd (local_iteration env w fs) = fs)"
proof (intro conjI impI)
  assume "model fr (conf_threshold eng) = Inl e"
  then show "predict model t0 t1 eng fr = (Inl e, eng)"
    by (simp add: predict_def)
next
  assume a: "model fr (conf_threshold eng) = Inr boxes \<and>
      (\<forall>b\<in>set boxes. py_int (box_cls b) \<in> dom (class_names eng))"
  then obtain ds where "parse_results (class_names eng) boxes = Inr ds" "length ds = length boxes"
    using parse_results_ok [of boxes "class_names eng"] by blast
  with a show "\<exists>ds. fst (predict model t0 t1 eng fr) = Inr ds \<and> length ds = length boxes"
    by (simp add: predict_def)
  from a show "inference_times (snd (predict model t0 t1 eng fr))
        = inference_times eng @ [(t1 - t0) * 1000]"
    by (simp add: predict_def)
next
  assume a: "read_frame (l_video w) = (Some fr, v) \<and> detect env fr = Inl e"
  then show "l_phase (fst (local_iteration env w fs)) = Crashed e"
    by (simp add: local_iteration_crash)
  from a show "snd (local_iteration env w fs) = fs"
    by (simp add: local_iteration_crash)
qed

theorem predict_outcomes_witness:
  "failing_model small_frame (conf_threshold fresh_engine) = Inl (ModelError ''CUDA out of memory'') \<and>
   predict failing_model 0 (1 / 50) fresh_engine small_frame
     = (Inl (ModelError ''CUDA out of memory''), fresh_engine) \<and>
   empty_model small_frame (conf_threshold fresh_engine) = Inr [] \<and>
   fst (predict empty_model 0 (1 / 50) fresh_engine small_frame) = Inr [] \<and>
   inference_times (snd (predict empty_model 0 (1 / 50) fresh_engine small_frame)) = [20]"
proof -
  have m: "failing_model small_frame (conf_threshold fresh_engine) = Inl (ModelError ''CUDA out of memory'')"
    by (simp add: failing_model_def)
  have e: "empty_model small_frame (conf_threshold fresh_engine) = Inr [] \<and>
      (\<forall>b\<in>set []. py_int (box_cls b) \<in> dom (class_names fresh_engine))"
    by (simp add: empty_model_def)
  from m predict_outcomes [of failing_model small_frame fresh_engine "ModelError ''CUDA out of memory''" 0 "1 / 50"]
  have p1: "predict failing_model 0 (1 / 50) fresh_engine small_frame
     = (Inl (ModelError ''CUDA out of memory''), fresh_engine)"
    by blast
  from e predict_outcomes [of empty_model small_frame fresh_engine _ 0 "1 / 50" "[]"]
  have p2: "(\<exists>ds. fst (predict empty_model 0 (1 / 50) fresh_engine small_frame) = Inr ds \<and> length ds = length ([] :: raw_box list)) \<and>
      inference_times (snd (predict empty_model 0 (1 / 50) fresh_engine small_frame))
        = inference_times fresh_engine @ [(1 / 50 - 0) * 1000]"
    by blast
  from p2 have p3: "fst (predict empty_model 0 (1 / 50) fresh_engine small_frame) = Inr []"
    by auto
  from p2 have p4: "inference_times (snd (predict empty_model 0 (1 / 50) fresh_engine small_frame)) = [20]"
    by (simp add: fresh_engine_def)
  from e have e1: "empty_model small_frame (conf_threshold fresh_engine) = Inr []"
    by simp
  show ?thesis
    by (intro conjI m p1 e1 p3 p4)
qed

section \<open>The local pipeline: lemmas\<close>

lemma release_current: "current_frame (release vp) = current_frame vp"
  by (simp add: release_def split: option.splits)

lemma read_frame_none:
  "read_frame vp = (None, v) \<Longrightarrow> v = vp"
  by (auto simp: read_frame_def split: option.splits if_splits list.splits)

lemma local_finish_inv:
  assumes "local_inv w fs" "l_phase w = Looping"
  shows "local_inv (fst (local_finish env w fs)) (snd (local_finish env w fs))"
  using assms by (simp add: local_inv_def local_finish_def Let_def release_current)

lemma local_iteration_inv:
  assumes "local_inv w fs" "l_phase w = Looping"
  shows "local_inv (fst (local_iteration env w fs)) (snd (local_iteration env w fs))"
proof (cases "read_frame (l_video w)")
  case (Pair r v)
  show ?thesis
  proof (cases r)
    case None
    with Pair have v: "v = l_video w" by (simp add: read_frame_none)
    with Pair None have "local_iteration env w fs = local_finish env w fs"
      by (simp add: local_iteration_def)
    with assms show ?thesis by (simp add: local_finish_inv)
  next
    case (Some fr)
    from read_frame_current [OF Pair] Some
    have cur: "current_frame v = current_frame (l_video w) + 1" by simp
    show ?thesis
    proof (cases "detect env fr")
      case (Inl e)
      with Pair Some assms cur show ?thesis
        by (simp add: local_iteration_def Let_def local_inv_def)
    next
      case (Inr dets)
      define w2 where "w2 = w\<lparr>l_video := v, l_frame_count := l_frame_count w + 1,
          all_detections := all_detections w @
            [(format_detection_event (l_frame_count w + 1) (stamp env (l_frame_count w + 1)) dets (frame_shape fr))
               \<lparr>ev_session_id := Some (l_session_id w)\<rparr>],
          l_total_detections := l_total_detections w + int (length dets)\<rparr>"
      define fs2 where "fs2 = fs\<lparr>detections_file :=
          Whole \<lparr> doc_session_id = Some (l_session_id w), doc_detections = all_detections w2 \<rparr>\<rparr>"
      from assms cur have i2: "local_inv w2 fs2"
        by (simp add: local_inv_def w2_def fs2_def format_detection_event_def)
      have p2: "l_phase w2 = Looping"
        using assms by (simp add: w2_def)
      from Pair Some Inr have "local_iteration env w fs =
          (if display_window (l_config w) \<and> quit_key env (l_frame_count w + 1)
           then local_finish env w2 fs2
           else (case log_performance (l_config w) env (l_frame_count w + 1) of
                   Some e \<Rightarrow> (w2\<lparr>l_phase := Crashed e\<rparr>, fs2)
                 | None \<Rightarrow> (w2, fs2)))"
        by (simp add: local_iteration_def Let_def local_push_def w2_def fs2_def split: option.splits)
      moreover have "local_inv (w2\<lparr>l_phase := Crashed e\<rparr>) fs2" for e
        using i2 p2 by (simp add: local_inv_def)
      ultimately show ?thesis
        using i2 p2 by (simp add: local_finish_inv split: option.splits)
    qed
  qed
qed

lemma local_start_inv:
  assumes "local_start env fs = (Inr w, fs')" "detections_file fs = Absent"
  shows "local_inv w fs' \<and> l_phase w = Looping \<and>
         l_session_id w = local_session_id (clock env) \<and>
         frames_left (l_video w) = length (cap_frames (video_capture env)) \<and>
         all_detections w = [] \<and> archive_files fs' = archive_files fs"
  using assms
  by (auto simp: local_start_def Let_def local_inv_def open_source_def frames_left_def
      split: sum.splits option.splits if_splits)

lemma local_start_fail:
  "local_start env fs = (Inl e, fs') \<Longrightarrow> fs' = fs"
  by (auto simp: local_start_def Let_def split: sum.splits option.splits)

lemma local_iteration_sid:
  "l_session_id (fst (local_iteration env w fs)) = l_session_id w \<and>
   l_config (fst (local_iteration env w fs)) = l_config w"
  by (simp add: local_iteration_def local_finish_def Let_def
      split: prod.splits option.splits sum.splits)

lemma local_steps_inv:
  "local_inv (fst p) (snd p) \<Longrightarrow>
     local_inv (fst (local_steps k env p)) (snd (local_steps k env p))"
proof (induction k arbitrary: p)
  case 0
  then show ?case by simp
next
  case (Suc k)
  show ?case
  proof (cases "l_phase (fst p) = Looping")
    case True
    with Suc.prems
    have "local_inv (fst (local_iteration env (fst p) (snd p))) (snd (local_iteration env (fst p) (snd p)))"
      by (rule local_iteration_inv)
    from Suc.IH [OF this] True show ?thesis by simp
  next
    case False
    with Suc.prems show ?thesis by simp
  qed
qed

lemma local_steps_sid:
  "l_session_id (fst (local_steps k env p)) = l_session_id (fst p)"
proof (induction k arbitrary: p)
  case 0
  then show ?case by simp
next
  case (Suc k)
  then show ?case by (simp add: local_iteration_sid)
qed

lemma local_iteration_progress:
  assumes "l_phase w = Looping"
  shows "l_phase (fst (local_iteration env w fs)) \<noteq> Looping \<or>
         frames_left (l_video (fst (local_iteration env w fs))) < frames_left (l_video w)"
proof (cases "read_frame (l_video w)")
  case (Pair r v)
  show ?thesis
  proof (cases r)
    case None
    with Pair show ?thesis
      by (simp add: local_iteration_def local_finish_def Let_def)
  next
    case (Some fr)
    from read_frame_current [OF Pair] Some
    have "frames_left v < frames_left (l_video w)" by simp
    with Pair Some show ?thesis
      by (simp add: local_iteration_def local_finish_def Let_def
          split: sum.splits option.splits)
  qed
qed

lemma local_steps_done:
  "frames_left (l_video (fst p)) < k \<Longrightarrow> l_phase (fst (local_steps k env p)) \<noteq> Looping"
proof (induction k arbitrary: p)
  case 0
  then show ?case by simp
next
  case (Suc k)
  show ?case
  proof (cases "l_phase (fst p) = Looping")
    case True
    let ?q = "local_iteration env (fst p) (snd p)"
    from local_iteration_progress [OF True, of env "snd p"]
    consider "l_phase (fst ?q) \<noteq> Looping"
      | "frames_left (l_video (fst ?q)) < frames_left (l_video (fst p))"
      by blast
    then show ?thesis
    proof cases
      case 1
      then have "local_steps k env ?q = ?q"
        by (cases k) simp_all
      with 1 True show ?thesis by simp
    next
      case 2
      with Suc.prems have "frames_left (l_video (fst ?q)) < k" by simp
      from Suc.IH [OF this] True show ?thesis by simp
    qed
  next
    case False
    then show ?thesis by simp
  qed
qed

lemma local_loop_done:
  "l_phase (fst (local_loop env p)) \<noteq> Looping"
  by (simp add: local_loop_def local_steps_done del: local_steps.simps)

section \<open>The local sink: theorems\<close>

lemma push_all_fst:
  "fst (push_all sid evs p) = fst p @ map (\<lambda>e. e\<lparr>ev_session_id := Some sid\<rparr>) evs"
  by (induction evs arbitrary: p) (simp_all add: local_push_def Let_def)

lemma push_all_file:
  "evs \<noteq> [] \<Longrightarrow>
     detections_file (snd (push_all sid evs p))
       = Whole \<lparr> doc_session_id = Some sid, doc_detections = fst (push_all sid evs p) \<rparr>"
proof (induction evs arbitrary: p)
  case Nil
  then show ?case by simp
next
  case (Cons e es)
  show ?case
  proof (cases "es = []")
    case True
    then show ?thesis by (simp add: local_push_def Let_def)
  next
    case False
    from Cons.IH [OF False] show ?thesis by simp
  qed
qed

lemma example_local_start_ok:
  "\<not> isl (fst example_local_start)"
  by (simp add: example_local_start_def local_start_def example_worker_env_def Let_def
      open_source_def ten_frame_capture_def example_config_def)

text \<open>
  C4. Starting from a cleared detections file, after \<open>N\<close> events have been pushed with
  one session id, the detections endpoint returns exactly these \<open>N\<close> events, in the order
  pushed, each with that session id (which is also the \<open>session_id\<close> of the answer when
  \<open>N > 0\<close>). In a run of the local pipeline the endpoint returns, after any number of
  turns of the loop, the list of the events pushed so far, numbered 1, 2, ... in order, all
  with the session id of the run.
\<close>

theorem local_round_trip:
  assumes "detections_file fs = Absent"
  shows "(\<exists>d. get_detections (snd (push_all sid evs ([], fs))) = DetectionsInfo d \<and>
              doc_detections d = map (\<lambda>e. e\<lparr>ev_session_id := Some sid\<rparr>) evs \<and>
              length (doc_detections d) = length evs \<and>
              (\<forall>e\<in>set (doc_detections d). ev_session_id e = Some sid) \<and>
              (evs \<noteq> [] \<longrightarrow> doc_session_id d = Some sid)) \<and>
         (local_start env fs = (Inr w0, fs1) \<and> local_steps k env (w0, fs1) = (w, fs2) \<longrightarrow>
            (\<exists>d. get_detections fs2 = DetectionsInfo d \<and> doc_detections d = all_detections w) \<and>
            (\<forall>e\<in>set (all_detections w). ev_session_id e = Some (l_session_id w0)) \<and>
            map frame_id (all_detections w) = map int [1..<Suc (length (all_detections w))])"
proof -
  have d: "\<exists>d. get_detections (snd (push_all sid evs ([], fs))) = DetectionsInfo d \<and>
              doc_detections d = map (\<lambda>e. e\<lparr>ev_session_id := Some sid\<rparr>) evs \<and>
              length (doc_detections d) = length evs \<and>
              (\<forall>e\<in>set (doc_detections d). ev_session_id e = Some sid) \<and>
              (evs \<noteq> [] \<longrightarrow> doc_session_id d = Some sid)"
  proof (cases "evs = []")
    case True
    with assms show ?thesis by (simp add: get_detections_def)
  next
    case False
    from push_all_file [OF False, of sid "([], fs)"] False show ?thesis
      by (simp add: get_detections_def push_all_fst)
  qed
  have r: "local_start env fs = (Inr w0, fs1) \<and> local_steps k env (w0, fs1) = (w, fs2) \<longrightarrow>
            (\<exists>d. get_detections fs2 = DetectionsInfo d \<and> doc_detections d = all_detections w) \<and>
            (\<forall>e\<in>set (all_detections w). ev_session_id e = Some (l_session_id w0)) \<and>
            map frame_id (all_detections w) = map int [1..<Suc (length (all_detections w))]"
  proof
    assume a: "local_start env fs = (Inr w0, fs1) \<and> local_steps k env (w0, fs1) = (w, fs2)"
    with assms have "local_inv w0 fs1"
      using local_start_inv [of env fs w0 fs1] by simp
    then have "local_inv (fst (local_steps k env (w0, fs1))) (snd (local_steps k env (w0, fs1)))"
      using local_steps_inv [of "(w0, fs1)" k env] by simp
    with a have i: "local_inv w fs2" by simp
    from a have sid: "l_session_id w = l_session_id w0"
      using local_steps_sid [of k env "(w0, fs1)"] by simp
    from i sid show "(\<exists>d. get_detections fs2 = DetectionsInfo d \<and> doc_detections d = all_detections w) \<and>
            (\<forall>e\<in>set (all_detections w). ev_session_id e = Some (l_session_id w0)) \<and>
            map frame_id (all_detections w) = map int [1..<Suc (length (all_detections w))]"
      by (simp add: local_inv_def get_detections_def list_all_iff)
  qed
  from d r show ?thesis
    by simp
qed

theorem local_round_trip_witness:
  "detections_file (local_files empty_store) = Absent \<and>
   get_detections (snd (push_all ''local_1770000001''
       [format_detection_event 1 ''2026-02-08T01:30:34'' [] (2, 2, 3),
        format_detection_event 2 ''2026-02-08T01:30:35'' [early_blight] (2, 2, 3)]
       ([], local_files empty_store)))
     = DetectionsInfo
         \<lparr> doc_session_id = Some ''local_1770000001'',
           doc_detections =
             [(format_detection_event 1 ''2026-02-08T01:30:34'' [] (2, 2, 3))
                \<lparr>ev_session_id := Some ''local_1770000001''\<rparr>,
              (format_detection_event 2 ''2026-02-08T01:30:35'' [early_blight] (2, 2, 3))
                \<lparr>ev_session_id := Some ''local_1770000001''\<rparr>] \<rparr> \<and>
   \<not> isl (fst example_local_start) \<and>
   (case get_detections (snd (local_steps (Suc (Suc 0)) example_worker_env
             (projr (fst example_local_start), snd example_local_start))) of
      DetectionsInfo d \<Rightarrow>
        doc_detections d = all_detections (fst (local_steps (Suc (Suc 0)) example_worker_env
             (projr (fst example_local_start), snd example_local_start)))
    | DetectionsFailed c \<Rightarrow> False)"
proof -
  let ?evs = "[format_detection_event 1 ''2026-02-08T01:30:34'' [] (2, 2, 3),
        format_detection_event 2 ''2026-02-08T01:30:35'' [early_blight] (2, 2, 3)]"
  let ?st = "local_steps (Suc (Suc 0)) example_worker_env
        (projr (fst example_local_start), snd example_local_start)"
  have n: "detections_file (local_files empty_store) = Absent"
    by (simp add: empty_store_def)
  have ne: "?evs \<noteq> []"
    by simp
  have ok: "\<not> isl (fst example_local_start)"
    by (rule example_local_start_ok)
  then have st: "local_start example_worker_env (local_files empty_store)
      = (Inr (projr (fst example_local_start)), snd example_local_start)"
    by (cases "fst example_local_start")
       (simp_all add: example_local_start_def prod_eq_iff)
  have sp: "local_steps (Suc (Suc 0)) example_worker_env
        (projr (fst example_local_start), snd example_local_start) = (fst ?st, snd ?st)"
    by simp
  note t = local_round_trip [OF n, of "''local_1770000001''" ?evs example_worker_env
      "projr (fst example_local_start)" "snd example_local_start" "Suc (Suc 0)" "fst ?st" "snd ?st"]
  from t ne obtain d where d: "get_detections (snd (push_all ''local_1770000001'' ?evs
       ([], local_files empty_store))) = DetectionsInfo d"
    "doc_detections d = map (\<lambda>e. e\<lparr>ev_session_id := Some ''local_1770000001''\<rparr>) ?evs"
    "doc_session_id d = Some ''local_1770000001''"
    by blast
  from d(2,3) have "d = \<lparr> doc_session_id = Some ''local_1770000001'',
           doc_detections =
             [(format_detection_event 1 ''2026-02-08T01:30:34'' [] (2, 2, 3))
                \<lparr>ev_session_id := Some ''local_1770000001''\<rparr>,
              (format_detection_event 2 ''2026-02-08T01:30:35'' [early_blight] (2, 2, 3))
                \<lparr>ev_session_id := Some ''local_1770000001''\<rparr>] \<rparr>"
    by simp
  with d(1) have a: "get_detections (snd (push_all ''local_1770000001'' ?evs
       ([], local_files empty_store)))
     = DetectionsInfo
         \<lparr> doc_session_id = Some ''local_1770000001'',
           doc_detections =
             [(format_detection_event 1 ''2026-02-08T01:30:34'' [] (2, 2, 3))
                \<lparr>ev_session_id := Some ''local_1770000001''\<rparr>,
              (format_detection_event 2 ''2026-02-08T01:30:35'' [early_blight] (2, 2, 3))
                \<lparr>ev_session_id := Some ''local_1770000001''\<rparr>] \<rparr>"
    by simp
  from t st sp obtain d2 where "get_detections (snd ?st) = DetectionsInfo d2"
    "doc_detections d2 = all_detections (fst ?st)"
    by blast
  then have c: "case get_detections (snd ?st) of
      DetectionsInfo d \<Rightarrow> doc_detections d = all_detections (fst ?st)
    | DetectionsFailed c \<Rightarrow> False"
    by simp
  show ?thesis
    by (intro conjI n a ok c)
qed

section \<open>The remote pipeline: lemmas\<close>

lemma firebase_session_id_nonempty: "firebase_session_id t \<noteq> []"
  by (simp add: firebase_session_id_def)

lemma end_session_inv:
  "remote_inv up db \<Longrightarrow> remote_inv up (end_session env up db)"
  by (auto simp: remote_inv_def end_session_def update_data_def)

lemma end_session_other:
  "k \<noteq> up_session_id up \<Longrightarrow> db_sessions (end_session env up db) k = db_sessions db k"
  by (simp add: end_session_def update_data_def)

lemma upload_inv:
  "remote_inv up db \<Longrightarrow>
     remote_inv (fst (snd (upload_detection_event key up ev db)))
       (snd (snd (upload_detection_event key up ev db)))"
  by (auto simp: remote_inv_def upload_detection_event_def split: option.splits)

lemma remote_start_inv:
  assumes "remote_start env db = (Inr w, db')" "db_detections db = []"
  shows "remote_inv (r_uploader w) db' \<and> r_phase w = Looping \<and>
         up_session_id (r_uploader w) = firebase_session_id (clock env) \<and>
         (\<forall>k. k \<noteq> firebase_session_id (clock env) \<longrightarrow> db_sessions db' k = db_sessions db k)"
  using assms
  by (auto simp: remote_start_def uploader_init_def Let_def remote_inv_def
      firebase_session_id_nonempty split: sum.splits option.splits if_splits prod.splits)

lemma remote_iteration_inv:
  assumes "remote_inv (r_uploader w) db"
  shows "remote_inv (r_uploader (fst (remote_iteration env w db))) (snd (remote_iteration env w db))"
  using assms
  by (simp add: remote_iteration_def remote_finish_def Let_def end_session_inv upload_inv
      split: prod.splits option.splits sum.splits)

lemma upload_keeps_id:
  "up_session_id (fst (snd (upload_detection_event key up ev db))) = up_session_id up \<and>
   db_sessions (snd (snd (upload_detection_event key up ev db))) = db_sessions db"
  by (simp add: upload_detection_event_def split: option.splits)

lemma remote_iteration_id:
  "up_session_id (r_uploader (fst (remote_iteration env w db))) = up_session_id (r_uploader w)"
  by (simp add: remote_iteration_def remote_finish_def Let_def upload_keeps_id
      split: prod.splits option.splits sum.splits)

lemma remote_iteration_other:
  "k \<noteq> up_session_id (r_uploader w) \<Longrightarrow>
     db_sessions (snd (remote_iteration env w db)) k = db_sessions db k"
  by (simp add: remote_iteration_def remote_finish_def Let_def upload_keeps_id end_session_other
      split: prod.splits option.splits sum.splits)

lemma remote_steps_inv:
  "remote_inv (r_uploader (fst p)) (snd p) \<Longrightarrow>
     remote_inv (r_uploader (fst (remote_steps k env p))) (snd (remote_steps k env p))"
proof (induction k arbitrary: p)
  case 0
  then show ?case by simp
next
  case (Suc k)
  show ?case
  proof (cases "r_phase (fst p) = Looping")
    case True
    from Suc.prems
    have "remote_inv (r_uploader (fst (remote_iteration env (fst p) (snd p)))) (snd (remote_iteration env (fst p) (snd p)))"
      by (rule remote_iteration_inv)
    from Suc.IH [OF this] True show ?thesis by simp
  next
    case False
    with Suc.prems show ?thesis by simp
  qed
qed

lemma remote_steps_id:
  "up_session_id (r_uploader (fst (remote_steps k env p))) = up_session_id (r_uploader (fst p)) \<and>
   (\<forall>key. key \<noteq> up_session_id (r_uploader (fst p)) \<longrightarrow>
      db_sessions (snd (remote_steps k env p)) key = db_sessions (snd p) key)"
proof (induction k arbitrary: p)
  case 0
  then show ?case by simp
next
  case (Suc k)
  show ?case
  proof (cases "r_phase (fst p) = Looping")
    case True
    from Suc.IH [of "remote_iteration env (fst p) (snd p)"] True show ?thesis
      by (simp add: remote_iteration_id remote_iteration_other)
  next
    case False
    then show ?thesis by simp
  qed
qed

section \<open>Session identifiers: theorems\<close>









section \<open>The session record at the end of a run: theorems\<close>

lemma remote_session_frame_count_zero:
  assumes "remote_start env db = (Inr r0, db1)" "db_detections db = []"
  shows "\<exists>sd. db_sessions (snd (remote_steps k env (r0, db1))) (firebase_session_id (clock env)) = Some sd \<and>
              frame_count sd = 0"
proof -
  from assms have s0: "remote_inv (r_uploader r0) db1"
    "up_session_id (r_uploader r0) = firebase_session_id (clock env)"
    using remote_start_inv [of env db r0 db1] by simp_all
  from s0(1) have "remote_inv (r_uploader (fst (remote_steps k env (r0, db1)))) (snd (remote_steps k env (r0, db1)))"
    using remote_steps_inv [of "(r0, db1)" k env] by simp
  moreover from s0(2) have "up_session_id (r_uploader (fst (remote_steps k env (r0, db1)))) = firebase_session_id (clock env)"
    using remote_steps_id [of k env "(r0, db1)"] by simp
  ultimately show ?thesis
    by (auto simp: remote_inv_def)
qed

text \<open>
  Both loops end: the fuel given to \<open>local_loop\<close> and \<open>remote_loop\<close> is enough to leave
  the phase \<open>Looping\<close>. When the local pipeline gets past its loop, the session file reads
  "completed" with the number of frames read and the total of the events' detection counts;
  on the one-frame video used below the local pipeline records \<open>frame_count\<close> 1.
\<close>

lemma remote_iteration_progress:
  assumes "r_phase w = Looping"
  shows "r_phase (fst (remote_iteration env w db)) \<noteq> Looping \<or>
         frames_left (r_video (fst (remote_iteration env w db))) < frames_left (r_video w)"
proof (cases "read_frame (r_video w)")
  case (Pair r v)
  show ?thesis
  proof (cases r)
    case None
    with Pair show ?thesis
      by (simp add: remote_iteration_def remote_finish_def Let_def)
  next
    case (Some fr)
    from read_frame_current [OF Pair] Some
    have "frames_left v < frames_left (r_video w)" by simp
    with Pair Some show ?thesis
      by (simp add: remote_iteration_def remote_finish_def Let_def
          split: sum.splits option.splits)
  qed
qed

lemma remote_steps_done:
  "frames_left (r_video (fst p)) < k \<Longrightarrow> r_phase (fst (remote_steps k env p)) \<noteq> Looping"
proof (induction k arbitrary: p)
  case 0
  then show ?case by simp
next
  case (Suc k)
  show ?case
  proof (cases "r_phase (fst p) = Looping")
    case True
    let ?q = "remote_iteration env (fst p) (snd p)"
    from remote_iteration_progress [OF True, of env "snd p"]
    consider "r_phase (fst ?q) \<noteq> Looping"
      | "frames_left (r_video (fst ?q)) < frames_left (r_video (fst p))"
      by blast
    then show ?thesis
    proof cases
      case 1
      then have "remote_steps k env ?q = ?q"
        by (cases k) simp_all
      with 1 True show ?thesis by simp
    next
      case 2
      with Suc.prems have "frames_left (r_video (fst ?q)) < k" by simp
      from Suc.IH [OF this] True show ?thesis by simp
    qed
  next
    case False
    then show ?thesis by simp
  qed
qed

lemma remote_loop_done:
  "r_phase (fst (remote_loop env p)) \<noteq> Looping"
  by (simp add: remote_loop_def remote_steps_done del: remote_steps.simps)

lemma local_main_session:
  assumes "local_main env fs = (Inr w, fs')" "detections_file fs = Absent"
  shows "l_phase w \<noteq> Looping \<and>
         (l_phase w = Completed \<longrightarrow>
            (\<exists>sd. session_file fs' = Whole sd \<and> status sd = ''completed'' \<and>
                  frame_count sd = current_frame (l_video w) \<and>
                  frame_count sd = int (length (all_detections w)) \<and>
                  total_detections sd = sum_list (map detection_count (all_detections w))))"
proof -
  obtain w0 fs1 where st: "local_start env fs = (Inr w0, fs1)"
    and lp: "local_loop env (w0, fs1) = (w, fs')"
    using assms(1)
    by (auto simp: local_main_def split: prod.splits sum.splits)
  from st assms(2) have "local_inv w0 fs1"
    using local_start_inv [of env fs w0 fs1] by simp
  then have "local_inv (fst (local_loop env (w0, fs1))) (snd (local_loop env (w0, fs1)))"
    unfolding local_loop_def
    using local_steps_inv [of "(w0, fs1)" "Suc (frames_left (l_video (fst (w0, fs1))))" env]
    by (simp del: local_steps.simps)
  with lp have i: "local_inv w fs'" by simp
  from lp have d: "l_phase w \<noteq> Looping"
    using local_loop_done [of env "(w0, fs1)"] by simp
  from i d show ?thesis
    by (auto simp: local_inv_def)
qed

lemma local_frame_count_same_input:
  "(case local_main one_frame_env (local_files empty_store) of
      (Inl e, fs) \<Rightarrow> False
    | (Inr w, fs) \<Rightarrow>
        l_phase w = Completed \<and> current_frame (l_video w) = 1 \<and>
        (case session_file fs of
           Whole sd \<Rightarrow> status sd = ''completed'' \<and> frame_count sd = 1 \<and> total_detections sd = 1
         | _ \<Rightarrow> False))"
  by (simp add: local_main_def local_start_def local_loop_def local_iteration_def
      local_finish_def local_push_def format_detection_event_def log_performance_def
      one_frame_env_def example_worker_env_def example_config_def one_frame_capture_def
      blighted_frame_def empty_store_def open_source_def read_frame_def release_def
      frames_left_def py_int_def Let_def)

text \<open>
  C2 at a failing input. The remote pipeline runs on a video of one frame, with one
  detection in it, while the database answers every call. The run ends normally with one
  frame read, and the session record is marked completed with one detection, but its
  \<open>frame_count\<close> is 0: the uploader's counter grows only in \<open>upload_frame_summary\<close>,
  which the pipeline never calls.
\<close>

theorem remote_frame_count_failing_input:
  "(case remote_main one_frame_env (remote empty_store) of
      (Inl e, db) \<Rightarrow> False
    | (Inr w, db) \<Rightarrow>
        r_phase w = Completed \<and> r_frame_count w = 1 \<and> current_frame (r_video w) = 1 \<and>
        map_option status (db_sessions db (up_session_id (r_uploader w))) = Some ''completed'' \<and>
        map_option frame_count (db_sessions db (up_session_id (r_uploader w))) = Some 0 \<and>
        map_option total_detections (db_sessions db (up_session_id (r_uploader w))) = Some 1)"
  by (simp add: remote_main_def remote_start_def remote_loop_def remote_iteration_def
      remote_finish_def uploader_init_def upload_detection_event_def end_session_def
      update_data_def format_detection_event_def log_performance_def
      one_frame_env_def example_worker_env_def example_config_def one_frame_capture_def
      blighted_frame_def empty_store_def open_source_def read_frame_def release_def
      frames_left_def py_int_def firebase_session_id_nonempty Let_def)

section \<open>Rewriting the current files: theorems\<close>

text \<open>
  The states listed for a turn end in the store that \<open>local_iteration\<close> returns, and
  those listed for the code after the loop in the store that \<open>local_finish\<close> returns.
\<close>

lemma local_finish_states_last:
  "snd (snd (last (local_finish_states env w fs))) = snd (local_finish env w fs)"
  by (simp add: local_finish_states_def local_finish_def dump_json_def Let_def)

lemma local_finish_states_nonempty:
  "local_finish_states env w fs \<noteq> []"
  by (simp add: local_finish_states_def Let_def)

lemma local_iteration_states_last:
  "snd (snd (last (local_iteration_states env w fs))) = snd (local_iteration env w fs)"
proof (cases "read_frame (l_video w)")
  case (Pair r v)
  show ?thesis
  proof (cases r)
    case None
    with Pair show ?thesis
      by (simp add: local_iteration_states_def local_iteration_def local_finish_states_last)
  next
    case (Some fr)
    show ?thesis
    proof (cases "detect env fr")
      case (Inl e)
      with Pair Some show ?thesis
        by (simp add: local_iteration_states_def local_iteration_def Let_def)
    next
      case (Inr dets)
      with Pair Some show ?thesis
        by (simp add: local_iteration_states_def local_iteration_def Let_def dump_json_def
            local_push_def local_finish_states_last local_finish_states_nonempty
            split: option.splits)
    qed
  qed
qed

text \<open>
  Every turn that pushes an event passes through a torn detections file, on which the
  detections endpoint answers HTTP 500.
\<close>

lemma rewrite_passes_torn:
  assumes "read_frame (l_video w) = (Some fr, v)" "detect env fr = Inr dets"
  shows "(False, l_frame_count w + 1,
          fs\<lparr>detections_file := Torn
            \<lparr> doc_session_id = Some (l_session_id w),
              doc_detections = fst (local_push (l_session_id w)
                (format_detection_event (l_frame_count w + 1) (stamp env (l_frame_count w + 1))
                   dets (frame_shape fr))
                (all_detections w, fs)) \<rparr>\<rparr>)
           \<in> set (local_iteration_states env w fs)"
  using assms
  by (simp add: local_iteration_states_def Let_def dump_json_def)

lemma torn_answers_500:
  "get_detections (fs\<lparr>detections_file := Torn d\<rparr>) = DetectionsFailed 500"
  by (simp add: get_detections_def)

lemmas example_run_defs =
  example_run_states_def local_run_states_def local_start_states_def
  local_iteration_states_def local_finish_states_def dump_json_def
  local_start_def local_iteration_def local_push_def
  local_finish_def log_performance_def format_detection_event_def get_detections_def
  get_session_def open_source_def read_frame_def py_int_def
  example_worker_env_def example_config_def ten_frame_capture_def
  empty_store_def clear_frame_def blighted_frame_def Let_def

text \<open>
  C6 fails on the code. The local pipeline runs on the ten-frame video; the detections
  endpoint is asked while the second turn of the loop rewrites
  \<open>current_detections.json\<close>. The script opens the file itself with mode \<open>'w'\<close> and
  dumps the list into it: there is no temporary file and no rename. After the first turn
  the endpoint answers with the event of frame 1. Between the open and the end of the dump
  of the second turn the file is torn: the endpoint answers HTTP 500, and neither the old
  list nor the new one can be had. Only after the dump does it answer with the events of
  frames 1 and 2. The session file, written the same way, is torn in the same way while
  it is first written.
\<close>

theorem detections_rewrite_failing_input:
  "(case get_detections (snd (snd (example_run_states ! 5))) of
      DetectionsInfo d \<Rightarrow> map frame_id (doc_detections d) = [1]
    | DetectionsFailed code \<Rightarrow> False) \<and>
   fst (snd (example_run_states ! 7)) = 2 \<and>
   (case detections_file (snd (snd (example_run_states ! 7))) of
      Torn d \<Rightarrow> map frame_id (doc_detections d) = [1, 2]
    | Whole d \<Rightarrow> False
    | Absent \<Rightarrow> False) \<and>
   get_detections (snd (snd (example_run_states ! 7))) = DetectionsFailed 500 \<and>
   (case get_detections (snd (snd (example_run_states ! 8))) of
      DetectionsInfo d \<Rightarrow> map frame_id (doc_detections d) = [1, 2]
    | DetectionsFailed code \<Rightarrow> False) \<and>
   get_session (snd (snd (example_run_states ! 1))) = SessionFailed 500"
  by (simp add: example_run_defs)

section \<open>Stopping a running job: theorems\<close>






























end
